theory Spec2Isabelle
  imports Complex_Main
begin

section \<open>Go values as reflection shows them\<close>

text \<open>
  The configuration code of \<^verbatim>\<open>components/utils\<close> walks a struct by reflection. The
  model keeps what reflection shows: the kind of every value, the tags of every struct
  field, the element type of a slice or of a nil pointer (needed to allocate a zero
  value), and the dynamic value held by an interface field.

  Scope of the value model: struct fields are exported (reflection may read and set
  them); a pointer owns its pointee (no two fields share one pointee); a float64 is the
  real number it denotes; a deferred value (a pulumi Output) lives in a field of one of
  the Input interface types, as in every struct this repository binds.
\<close>

datatype kind =
    KInvalid | KBool
  | KInt | KInt8 | KInt16 | KInt32 | KInt64
  | KUint | KUint8 | KUint16 | KUint32 | KUint64 | KUintptr
  | KFloat32 | KFloat64 | KComplex64 | KComplex128
  | KArray | KChan | KFunc | KInterface | KMap | KPointer | KSlice | KString | KStruct
  | KUnsafePointer

datatype ikind = IInt | IInt8 | IInt16 | IInt32 | IInt64 | IUint | IUint8 | IUint16 | IUint32 | IUint64

datatype fkind = FFloat32 | FFloat64

datatype okind = OUintptr | OComplex64 | OComplex128 | OChan | OFunc | OUnsafePointer

text \<open>The four capabilities of a deferred value, and the interface types of a field.\<close>

datatype cap = CString | CBool | CInt | CFloat64

datatype iface = StringInput | BoolInput | IntInput | Float64Input | OtherInterface string

type_synonym tags = "(string \<times> string) list"

datatype gtype =
    TBool | TInt ikind | TFloat fkind | TString
  | TMap gtype gtype
  | TStruct "decl list"
  | TPtr gtype
  | TArray nat gtype
  | TSlice gtype
  | TInterface iface
  | TOther okind
and decl = Decl string tags gtype

text \<open>
  The dynamic value of an interface field: a literal wrapper (\<^verbatim>\<open>pulumi.String\<close>,
  \<^verbatim>\<open>pulumi.Bool\<close>, \<^verbatim>\<open>pulumi.Int\<close>, \<^verbatim>\<open>pulumi.Float64\<close>), an Output of one
  capability with the handle of its pending computation, or a value of any other type.
\<close>

datatype dyn =
    DString string | DBool bool | DInt int | DFloat64 real
  | DOutput cap nat
  | DOther string

datatype gvalue =
    VBool bool
  | VInt ikind int
  | VFloat fkind real
  | VString string
  | VMap gtype gtype "(gvalue \<times> gvalue) list option"
  | VStruct "field list"
  | VNil gtype
  | VPtr gvalue
  | VArray "gvalue list"
  | VSlice gtype "gvalue list option"
  | VIface iface "dyn option"
  | VOther okind nat
and field = Field (fname: string) (ftags: tags) (fvalue: gvalue)

primrec kind_of_ikind :: "ikind \<Rightarrow> kind" where
  "kind_of_ikind IInt = KInt"
| "kind_of_ikind IInt8 = KInt8"
| "kind_of_ikind IInt16 = KInt16"
| "kind_of_ikind IInt32 = KInt32"
| "kind_of_ikind IInt64 = KInt64"
| "kind_of_ikind IUint = KUint"
| "kind_of_ikind IUint8 = KUint8"
| "kind_of_ikind IUint16 = KUint16"
| "kind_of_ikind IUint32 = KUint32"
| "kind_of_ikind IUint64 = KUint64"

primrec kind_of_fkind :: "fkind \<Rightarrow> kind" where
  "kind_of_fkind FFloat32 = KFloat32"
| "kind_of_fkind FFloat64 = KFloat64"

primrec kind_of_okind :: "okind \<Rightarrow> kind" where
  "kind_of_okind OUintptr = KUintptr"
| "kind_of_okind OComplex64 = KComplex64"
| "kind_of_okind OComplex128 = KComplex128"
| "kind_of_okind OChan = KChan"
| "kind_of_okind OFunc = KFunc"
| "kind_of_okind OUnsafePointer = KUnsafePointer"

text \<open>\<^verbatim>\<open>reflect.Value.Kind\<close>.\<close>

fun kind_of :: "gvalue \<Rightarrow> kind" where
  "kind_of (VBool _) = KBool"
| "kind_of (VInt k _) = kind_of_ikind k"
| "kind_of (VFloat k _) = kind_of_fkind k"
| "kind_of (VString _) = KString"
| "kind_of (VMap _ _ _) = KMap"
| "kind_of (VStruct _) = KStruct"
| "kind_of (VNil _) = KPointer"
| "kind_of (VPtr _) = KPointer"
| "kind_of (VArray _) = KArray"
| "kind_of (VSlice _ _) = KSlice"
| "kind_of (VIface _ _) = KInterface"
| "kind_of (VOther k _) = kind_of_okind k"

text \<open>The zero value of a type, as \<^verbatim>\<open>reflect.New(t).Elem()\<close> gives it.\<close>

primrec zero :: "gtype \<Rightarrow> gvalue" and zero_decl :: "decl \<Rightarrow> field" where
  "zero TBool = VBool False"
| "zero (TInt k) = VInt k 0"
| "zero (TFloat k) = VFloat k 0"
| "zero TString = VString []"
| "zero (TMap k v) = VMap k v None"
| "zero (TStruct ds) = VStruct (map zero_decl ds)"
| "zero (TPtr t) = VNil t"
| "zero (TArray n t) = VArray (replicate n (zero t))"
| "zero (TSlice t) = VSlice t None"
| "zero (TInterface i) = VIface i None"
| "zero (TOther k) = VOther k 0"
| "zero_decl (Decl n ts t) = Field n ts (zero t)"

text \<open>\<^verbatim>\<open>reflect.Value.IsZero\<close>.\<close>

primrec IsZero :: "gvalue \<Rightarrow> bool" and IsZero_field :: "field \<Rightarrow> bool" where
  "IsZero (VBool b) = (\<not> b)"
| "IsZero (VInt k n) = (n = 0)"
| "IsZero (VFloat k x) = (x = 0)"
| "IsZero (VString s) = (s = [])"
| "IsZero (VMap k v m) = (m = None)"
| "IsZero (VStruct fs) = list_all IsZero_field fs"
| "IsZero (VNil t) = True"
| "IsZero (VPtr p) = False"
| "IsZero (VArray xs) = list_all IsZero xs"
| "IsZero (VSlice t xs) = (xs = None)"
| "IsZero (VIface i d) = (d = None)"
| "IsZero (VOther k n) = (n = 0)"
| "IsZero_field (Field n ts v) = IsZero v"

text \<open>Struct tags: \<^verbatim>\<open>Tag.Get\<close> gives the empty string for a missing key,
  \<^verbatim>\<open>Tag.Lookup\<close> tells whether the key is there.\<close>

definition tagGet :: "tags \<Rightarrow> string \<Rightarrow> string" where
  "tagGet ts k = (case map_of ts k of None \<Rightarrow> [] | Some v \<Rightarrow> v)"

definition tagLookup :: "tags \<Rightarrow> string \<Rightarrow> bool" where
  "tagLookup ts k = (map_of ts k \<noteq> None)"

section \<open>Decoded JSON and errors\<close>

text \<open>What \<^verbatim>\<open>json.Unmarshal\<close> stores in an \<^verbatim>\<open>interface{}\<close>: nil, bool, float64,
  string, \<^verbatim>\<open>[]interface{}\<close> or \<^verbatim>\<open>map[string]interface{}\<close>. A number is always a
  float64, never an int.\<close>

datatype json =
    JNull | JBool bool | JNumber real | JString string
  | JArray "json list"
  | JObject "(string \<times> json) list"

text \<open>\<^verbatim>\<open>reflect.TypeOf(val).Kind()\<close>; \<^verbatim>\<open>reflect.TypeOf(nil)\<close> is nil and has no kind.\<close>

fun jsonKind :: "json \<Rightarrow> kind option" where
  "jsonKind JNull = None"
| "jsonKind (JBool _) = Some KBool"
| "jsonKind (JNumber _) = Some KFloat64"
| "jsonKind (JString _) = Some KString"
| "jsonKind (JArray _) = Some KSlice"
| "jsonKind (JObject _) = Some KMap"

text \<open>
  An error value is what \<^verbatim>\<open>errors.New\<close> or \<^verbatim>\<open>fmt.Errorf\<close> built: the format string,
  its operands, and the error wrapped by \<^verbatim>\<open>%w\<close> if there is one. A missing required
  configuration key and a run-time panic end the call as well; they are results of
  their own, so that a panic is never taken for a returned error.
\<close>

datatype fmtarg = AStr string | ANat nat | AKind kind | AJson json | ATypeOf json | AIface iface

datatype error =
    ErrorsNew string
  | Errorf string "fmtarg list" "error option"
  | MissingConfigError string
  | Panic string

definition ErrJsonEmpty :: error where
  "ErrJsonEmpty = ErrorsNew ''json is empty''"

text \<open>\<^verbatim>\<open>errors.Is\<close>: the error itself or one it wraps.\<close>

fun errorsIs :: "error \<Rightarrow> error \<Rightarrow> bool" where
  "errorsIs (Errorf f as (Some e)) t = (Errorf f as (Some e) = t \<or> errorsIs e t)"
| "errorsIs e t = (e = t)"

text \<open>
  None of the functions modelled here recovers a panic, \<^verbatim>\<open>setFieldValue\<close> apart. So where
  a caller wraps the error of a call with \<^verbatim>\<open>fmt.Errorf("...: %w", ..., err)\<close>, a panic
  of that call is not wrapped: it goes through the caller as it is.
\<close>

fun panics :: "error \<Rightarrow> bool" where
  "panics (Panic _) = True"
| "panics (MissingConfigError _) = True"
| "panics _ = False"

definition wrapError :: "string \<Rightarrow> fmtarg list \<Rightarrow> error \<Rightarrow> error" where
  "wrapError fmt as err = (if panics err then err else Errorf fmt as (Some err))"

section \<open>Binding decoded JSON into structs and slices\<close>

text \<open>
  \<^verbatim>\<open>int(val.(float64))\<close>: the Go conversion drops the fraction (towards zero). Outside
  the range of a 64-bit int the language leaves the result to the implementation; the
  model takes the smallest int there, as amd64 does.
\<close>

definition float64ToInt :: "real \<Rightarrow> int" where
  "float64ToInt x =
     (let t = (if 0 \<le> x then \<lfloor>x\<rfloor> else \<lceil>x\<rceil>)
      in if - (2 ^ 63) \<le> t \<and> t < 2 ^ 63 then t else - (2 ^ 63))"

text \<open>\<^verbatim>\<open>fv.Elem().Kind()\<close> in the deferred function of \<^verbatim>\<open>setFieldValue\<close>:
  \<^verbatim>\<open>Elem\<close> panics unless the value is an interface or a pointer.\<close>

fun dynKind :: "dyn \<Rightarrow> kind" where
  "dynKind (DString _) = KString"
| "dynKind (DBool _) = KBool"
| "dynKind (DInt _) = KInt"
| "dynKind (DFloat64 _) = KFloat64"
| "dynKind (DOutput _ _) = KStruct"
| "dynKind (DOther _) = KInvalid"

fun elemKind :: "gvalue \<Rightarrow> kind option" where
  "elemKind (VNil _) = Some KInvalid"
| "elemKind (VPtr p) = Some (kind_of p)"
| "elemKind (VIface _ None) = Some KInvalid"
| "elemKind (VIface _ (Some d)) = Some (dynKind d)"
| "elemKind _ = None"

text \<open>The deferred function: a panic raised in the body is recovered and turned into an
  error, unless building the message panics itself.\<close>

definition recovered :: "gvalue \<Rightarrow> json \<Rightarrow> string \<Rightarrow> string \<Rightarrow> error" where
  "recovered fv val fieldName e =
     (case elemKind fv of
        None \<Rightarrow> Panic ''reflect: call of reflect.Value.Elem on a value that is neither interface nor pointer''
      | Some k \<Rightarrow> Errorf ''failed to set field '%s' (type %v) to %v: %v''
                    [AStr fieldName, AKind k, AJson val, AStr e] None)"

text \<open>\<^verbatim>\<open>fv.Set(reflect.ValueOf(val).Convert(fv.Type()))\<close> when the kinds agree. A decoded
  array or object converts to no slice or map type of the model, so \<^verbatim>\<open>Convert\<close> panics.\<close>

fun convertSet :: "gvalue \<Rightarrow> json \<Rightarrow> gvalue option" where
  "convertSet (VBool _) (JBool b) = Some (VBool b)"
| "convertSet (VFloat FFloat64 _) (JNumber x) = Some (VFloat FFloat64 x)"
| "convertSet (VString _) (JString s) = Some (VString s)"
| "convertSet _ _ = None"

text \<open>
  \<^verbatim>\<open>setFieldValue\<close>. The test \<^verbatim>\<open>!fv.CanSet() || fv.Kind() != reflect.TypeOf(val).Kind()\<close>
  asks for the kind of \<^verbatim>\<open>val\<close> only when the field can be set, and panics there on a
  JSON null; the inner test asks for it only when the field is of kind int.
\<close>

definition notSettable :: "string \<Rightarrow> json \<Rightarrow> error" where
  "notSettable fieldName val =
     Errorf ''field '%s' is not settable to %v (%v)'' [AStr fieldName, AJson val, ATypeOf val] None"

definition setFieldValue :: "bool \<Rightarrow> gvalue \<Rightarrow> json \<Rightarrow> string \<Rightarrow> gvalue \<times> error option" where
  "setFieldValue canSet fv val fieldName =
     (let nilKind = (fv, Some (recovered fv val fieldName
                                 ''invalid memory address or nil pointer dereference''))
      in if canSet \<and> jsonKind val = None then nilKind
         else if \<not> canSet \<or> Some (kind_of fv) \<noteq> jsonKind val then
           (if kind_of fv = KInt then
              (case val of
                 JNull \<Rightarrow> nilKind
               | JNumber x \<Rightarrow>
                   if canSet then (VInt IInt (float64ToInt x), None)
                   else (fv, Some (recovered fv (JNumber (of_int (float64ToInt x))) fieldName
                                     ''reflect.Value.Set using unaddressable or unexported value''))
               | _ \<Rightarrow> (fv, Some (notSettable fieldName val)))
            else (fv, Some (notSettable fieldName val)))
         else
           (case convertSet fv val of
              Some v \<Rightarrow> (v, None)
            | None \<Rightarrow> (fv, Some (recovered fv val fieldName
                                    ''reflect.Value.Convert: value cannot be converted''))))"

text \<open>The key of a field inside nested JSON: the config tag, else the json tag.\<close>

definition jsonFieldName :: "tags \<Rightarrow> string option" where
  "jsonFieldName ts =
     (if tagGet ts ''config'' \<noteq> [] then Some (tagGet ts ''config'')
      else if tagGet ts ''json'' \<noteq> [] then Some (tagGet ts ''json'')
      else None)"

text \<open>One turn of a loop either goes on to the next turn or returns from the function,
  with an error or with nil.\<close>

datatype flow = Continue | Return "error option"

definition errNotStructPtr :: error where
  "errNotStructPtr = ErrorsNew ''obj must be a pointer to a struct''"

definition assertionPanic :: "string \<Rightarrow> error" where
  "assertionPanic t = Panic (''interface conversion: interface {} is not '' @ t)"

definition wrapFlow :: "string \<Rightarrow> string \<Rightarrow> error option \<Rightarrow> flow" where
  "wrapFlow fmt fieldName e =
     (case e of None \<Rightarrow> Continue
      | Some err \<Rightarrow> Return (Some (wrapError fmt [AStr fieldName] err)))"

text \<open>The value a pointer argument points to after the call, read back by the caller.\<close>

fun pointee :: "gvalue option \<Rightarrow> gvalue \<Rightarrow> gvalue" where
  "pointee (Some (VPtr v)) d = v"
| "pointee _ d = d"

text \<open>
  \<^verbatim>\<open>unmarshallJSONMap\<close> and \<^verbatim>\<open>unmarshallJSONArray\<close> call each other. The loop over the
  fields of a struct is \<open>bindStruct\<close>, its body (the switch on the field's kind) is
  \<open>bindField\<close>; the loop over the elements of an array is \<open>appendLoop\<close>. Each function
  gives back the target as the call leaves it, also when it fails: nothing is rolled
  back. An unchecked type assertion on a value of another type is a panic. In a struct
  target the test \<^verbatim>\<open>t.Kind() == reflect.Pointer\<close> that follows the entry check never
  holds, so the model has no branch for it.
\<close>

definition elems :: "gvalue list option \<Rightarrow> gvalue list" where
  "elems xs = (case xs of None \<Rightarrow> [] | Some l \<Rightarrow> l)"

definition afterSet :: "gvalue \<times> error option \<Rightarrow> gvalue \<times> flow" where
  "afterSet r = (case r of (v, None) \<Rightarrow> (v, Continue) | (v, Some e) \<Rightarrow> (v, Return (Some e)))"

function (sequential)
  unmarshallJSONMap :: "(string \<times> json) list \<Rightarrow> gvalue option \<Rightarrow> gvalue option \<times> error option"
and bindStruct :: "(string \<times> json) list \<Rightarrow> field list \<Rightarrow> field list \<times> error option"
and bindField :: "(string \<times> json) list \<Rightarrow> string \<Rightarrow> gvalue \<Rightarrow> gvalue \<times> flow"
and unmarshallJSONArray :: "json list \<Rightarrow> gvalue option \<Rightarrow> gvalue option \<times> error option"
and appendLoop :: "json list \<Rightarrow> nat \<Rightarrow> nat \<Rightarrow> gtype \<Rightarrow> gvalue list option \<Rightarrow> gvalue list option \<times> error option"
where
  "unmarshallJSONMap dict (Some (VPtr (VStruct fs))) =
     (case bindStruct dict fs of (fs', e) \<Rightarrow> (Some (VPtr (VStruct fs')), e))"
| "unmarshallJSONMap dict obj = (obj, Some errNotStructPtr)"
| "bindStruct dict [] = ([], None)"
| "bindStruct dict (Field n ts fv # fs) =
     (case jsonFieldName ts of
        None \<Rightarrow> (case bindStruct dict fs of (fs', e) \<Rightarrow> (Field n ts fv # fs', e))
      | Some fieldName \<Rightarrow>
          (case bindField dict fieldName fv of
             (v, Return e) \<Rightarrow> (Field n ts v # fs, e)
           | (v, Continue) \<Rightarrow>
               (case bindStruct dict fs of (fs', e) \<Rightarrow> (Field n ts v # fs', e))))"
| "bindField dict fieldName (VIface StringInput d) =
     (case map_of dict fieldName of
        None \<Rightarrow> (VIface StringInput d, Continue)
      | Some val \<Rightarrow>
          if (case d of Some (DString _) \<Rightarrow> True | _ \<Rightarrow> False) \<or> d = None then
            (case val of
               JString s \<Rightarrow> (VIface StringInput (Some (DString s)), Continue)
             | _ \<Rightarrow> (VIface StringInput d, Return (Some (assertionPanic ''string''))))
          else (VIface StringInput d, Continue))"
| "bindField dict fieldName (VIface BoolInput d) =
     (case map_of dict fieldName of
        None \<Rightarrow> (VIface BoolInput d, Continue)
      | Some val \<Rightarrow>
          if (case d of Some (DBool _) \<Rightarrow> True | _ \<Rightarrow> False) \<or> d = None then
            (case val of
               JBool b \<Rightarrow> (VIface BoolInput (Some (DBool b)), Continue)
             | _ \<Rightarrow> (VIface BoolInput d, Return (Some (assertionPanic ''bool''))))
          else (VIface BoolInput d, Continue))"
| "bindField dict fieldName (VIface IntInput d) =
     (case map_of dict fieldName of
        None \<Rightarrow> (VIface IntInput d, Continue)
      | Some val \<Rightarrow>
          if (case d of Some (DInt _) \<Rightarrow> True | _ \<Rightarrow> False) \<or> d = None then
            (VIface IntInput d, Return (Some (assertionPanic ''int'')))
          else (VIface IntInput d, Continue))"
| "bindField dict fieldName (VIface Float64Input d) =
     (case map_of dict fieldName of
        None \<Rightarrow> (VIface Float64Input d, Continue)
      | Some val \<Rightarrow>
          if (case d of Some (DFloat64 _) \<Rightarrow> True | _ \<Rightarrow> False) \<or> d = None then
            (case val of
               JNumber x \<Rightarrow> (VIface Float64Input (Some (DFloat64 x)), Continue)
             | _ \<Rightarrow> (VIface Float64Input d, Return (Some (assertionPanic ''float64''))))
          else (VIface Float64Input d, Continue))"
| "bindField dict fieldName (VIface (OtherInterface n) d) =
     (VIface (OtherInterface n) d,
      Return (Some (Errorf ''unsupported interface %v for field: %s''
                      [AIface (OtherInterface n), AStr fieldName] None)))"
| "bindField dict fieldName (VStruct fs) =
     (case map_of dict fieldName of
        None \<Rightarrow> (VStruct fs, Continue)
      | Some (JObject child) \<Rightarrow>
          (case unmarshallJSONMap child (Some (VPtr (VStruct fs))) of
             (obj', e) \<Rightarrow>
               (pointee obj' (VStruct fs),
                wrapFlow ''failed to unmarshal json map for field '%s': %w'' fieldName e))
      | Some _ \<Rightarrow> (VStruct fs, Return (Some (assertionPanic ''map[string]interface {}''))))"
| "bindField dict fieldName (VNil t) =
     (case map_of dict fieldName of
        None \<Rightarrow> (VNil t, Continue)
      | Some _ \<Rightarrow> bindField dict fieldName (VPtr (zero t)))"
| "bindField dict fieldName (VPtr p) =
     (case map_of dict fieldName of
        None \<Rightarrow> (VPtr p, Continue)
      | Some (JObject childDict) \<Rightarrow>
          (case unmarshallJSONMap childDict (Some (VPtr p)) of
             (obj', e) \<Rightarrow>
               (VPtr (pointee obj' p),
                wrapFlow ''failed to unmarshal json map for field '%s': %w'' fieldName e))
      | Some (JArray childArr) \<Rightarrow>
          (case unmarshallJSONArray childArr (Some (VPtr p)) of
             (obj', e) \<Rightarrow>
               (VPtr (pointee obj' p),
                wrapFlow ''failed to unmarshal json array for field '%s': %w'' fieldName e))
      | Some val \<Rightarrow>
          (case setFieldValue True p val fieldName of (v, e) \<Rightarrow> (VPtr v, Return e)))"
| "bindField dict fieldName (VSlice t xs) =
     (case map_of dict fieldName of
        None \<Rightarrow> (VSlice t xs, Continue)
      | Some val \<Rightarrow>
          (let fv = VSlice t (if xs = None then Some [] else xs)
           in case val of
                JArray arr \<Rightarrow>
                  (case unmarshallJSONArray arr (Some (VPtr fv)) of
                     (obj', e) \<Rightarrow>
                       (pointee obj' fv,
                        wrapFlow ''failed to unmarshal json array for field '%s': %w'' fieldName e))
              | _ \<Rightarrow> (fv, Return (Some (assertionPanic ''[]interface {}'')))))"
| "bindField dict fieldName (VArray xs) =
     (case map_of dict fieldName of
        None \<Rightarrow> (VArray xs, Continue)
      | Some val \<Rightarrow>
          (VArray xs, Return (Some (Panic ''reflect: call of reflect.Value.IsNil on array Value''))))"
| "bindField dict fieldName (VMap k v m) = (VMap k v m, Continue)"
| "bindField dict fieldName fv =
     (case map_of dict fieldName of
        None \<Rightarrow> (fv, Continue)
      | Some val \<Rightarrow> afterSet (setFieldValue True fv val fieldName))"
| "unmarshallJSONArray arr None =
     (None, Some (ErrorsNew ''obj must be a pointer to a slice of struct''))"
| "unmarshallJSONArray arr (Some (VPtr (VSlice t xs))) =
     (case appendLoop arr (length (elems xs)) 0 t xs of
        (zs, e) \<Rightarrow> (Some (VPtr (VSlice t zs)), e))"
| "unmarshallJSONArray arr (Some v) =
     (Some v, Some (Errorf ''obj is of type %v, expected pointer to a slice''
                      [AKind (kind_of v)] None))"
| "appendLoop [] initalLen i t xs = (xs, None)"
| "appendLoop (JObject dict # rest) initalLen i t xs =
     (let ys = (if initalLen + i \<ge> length (elems xs) then Some (elems xs @ [zero t]) else xs)
      in if initalLen + i < length (elems ys) then
           (case unmarshallJSONMap dict (Some (VPtr (elems ys ! (initalLen + i)))) of
              (obj', e) \<Rightarrow>
                (let zs = Some ((elems ys)[initalLen + i := pointee obj' (elems ys ! (initalLen + i))])
                 in case e of
                      None \<Rightarrow> appendLoop rest initalLen (Suc i) t zs
                    | Some err \<Rightarrow>
                        (zs, Some (wrapError ''failed to unmarshal json array at index %d: %w''
                                     [ANat i] err))))
         else (ys, Some (Panic ''reflect: slice index out of range'')))"
| "appendLoop (val # rest) initalLen i t xs =
     (xs, Some (assertionPanic ''map[string]interface {}''))"
  by pat_completeness auto

termination
proof -
  have sz: "size v < Suc (size_list (size_prod (\<lambda>_. 0) size) d)"
    if "map_of d k = Some v" for d :: "(string \<times> json) list" and k v
    using that by (induction d) (auto split: if_splits)
  show ?thesis
    by (relation "measures
         [\<lambda>x. case x of
                 Inl (Inl (dict, obj)) \<Rightarrow> size (JObject dict)
               | Inl (Inr (dict, fs)) \<Rightarrow> size (JObject dict)
               | Inr (Inl (dict, n, fv)) \<Rightarrow> size (JObject dict)
               | Inr (Inr (Inl (arr, obj))) \<Rightarrow> size (JArray arr)
               | Inr (Inr (Inr (arr, r))) \<Rightarrow> size (JArray arr),
          \<lambda>x. case x of
                 Inl (Inl (dict, obj)) \<Rightarrow> 2
               | Inl (Inr (dict, fs)) \<Rightarrow> Suc 0
               | Inr (Inl (dict, n, fv)) \<Rightarrow> 0
               | Inr (Inr (Inl (arr, obj))) \<Rightarrow> Suc 0
               | Inr (Inr (Inr (arr, r))) \<Rightarrow> 0,
          \<lambda>x. case x of
                 Inl (Inr (dict, fs)) \<Rightarrow> length fs
               | Inr (Inl (dict, n, fv)) \<Rightarrow> (case fv of VNil t \<Rightarrow> Suc 0 | _ \<Rightarrow> 0)
               | _ \<Rightarrow> 0]")
       (auto dest: sz)
qed

section \<open>The Configuration Source\<close>

text \<open>
  What the code takes from outside the repository: the engine's configuration (a store
  from fully-qualified keys to text) and the library functions whose code is not in the
  sources: the casts of the typed accessors, the wrapping of a value into a secret
  Output, \<^verbatim>\<open>json.Unmarshal\<close> into an \<^verbatim>\<open>interface{}\<close> and into a map field, and the
  narrowing of a float64 to a float32.
\<close>

record Context =
  project :: string
  config :: "string \<rightharpoonup> string"
  castToBool :: "string \<Rightarrow> bool"
  castToInt :: "string \<Rightarrow> int"
  castToFloat64 :: "string \<Rightarrow> real"
  toSecret :: "cap \<Rightarrow> string \<Rightarrow> nat"
  jsonUnmarshal :: "string \<Rightarrow> error + json"
  jsonUnmarshalMap :: "string \<Rightarrow> gvalue \<Rightarrow> gvalue \<times> error option"
  float32 :: "real \<Rightarrow> real"

record Config =
  ctx :: Context
  namespace :: string

text \<open>Modelled from the spec: the accessors of the Configuration Source (package
  \<^verbatim>\<open>pulumi/config\<close>, which is not in the sources). Lookups are scoped by the namespace;
  a required lookup fails when the key is absent, an optional one gives the zero value of
  its type; a secret lookup gives an Output and never a plain value.\<close>

definition config_New :: "Context \<Rightarrow> string \<Rightarrow> Config" where
  "config_New c ns = \<lparr>ctx = c, namespace = (if ns = [] then project c else ns)\<rparr>"

definition fullKey :: "Config \<Rightarrow> string \<Rightarrow> string" where
  "fullKey cfg key = namespace cfg @ '':'' @ key"

definition missing :: "Config \<Rightarrow> string \<Rightarrow> error" where
  "missing cfg key = MissingConfigError (fullKey cfg key)"

text \<open>A Go \<^verbatim>\<open>int\<close> has 64 bits; \<^verbatim>\<open>SetInt\<close> on a narrower field keeps the low bits.\<close>

definition signedWrap :: "nat \<Rightarrow> int \<Rightarrow> int" where
  "signedWrap n x = (x + 2 ^ (n - 1)) mod 2 ^ n - 2 ^ (n - 1)"

definition cfgGet :: "Config \<Rightarrow> string \<Rightarrow> string" where
  "cfgGet cfg key = (case config (ctx cfg) (fullKey cfg key) of None \<Rightarrow> [] | Some v \<Rightarrow> v)"

definition cfgRequire :: "Config \<Rightarrow> string \<Rightarrow> error + string" where
  "cfgRequire cfg key =
     (case config (ctx cfg) (fullKey cfg key) of None \<Rightarrow> Inl (missing cfg key) | Some v \<Rightarrow> Inr v)"

definition cfgGetBool :: "Config \<Rightarrow> string \<Rightarrow> bool" where
  "cfgGetBool cfg key =
     (case config (ctx cfg) (fullKey cfg key) of None \<Rightarrow> False | Some v \<Rightarrow> castToBool (ctx cfg) v)"

definition cfgRequireBool :: "Config \<Rightarrow> string \<Rightarrow> error + bool" where
  "cfgRequireBool cfg key =
     (case config (ctx cfg) (fullKey cfg key) of
        None \<Rightarrow> Inl (missing cfg key) | Some v \<Rightarrow> Inr (castToBool (ctx cfg) v))"

definition cfgGetInt :: "Config \<Rightarrow> string \<Rightarrow> int" where
  "cfgGetInt cfg key =
     (case config (ctx cfg) (fullKey cfg key) of
        None \<Rightarrow> 0 | Some v \<Rightarrow> signedWrap 64 (castToInt (ctx cfg) v))"

definition cfgRequireInt :: "Config \<Rightarrow> string \<Rightarrow> error + int" where
  "cfgRequireInt cfg key =
     (case config (ctx cfg) (fullKey cfg key) of
        None \<Rightarrow> Inl (missing cfg key) | Some v \<Rightarrow> Inr (signedWrap 64 (castToInt (ctx cfg) v)))"

definition cfgGetFloat64 :: "Config \<Rightarrow> string \<Rightarrow> real" where
  "cfgGetFloat64 cfg key =
     (case config (ctx cfg) (fullKey cfg key) of None \<Rightarrow> 0 | Some v \<Rightarrow> castToFloat64 (ctx cfg) v)"

definition cfgRequireFloat64 :: "Config \<Rightarrow> string \<Rightarrow> error + real" where
  "cfgRequireFloat64 cfg key =
     (case config (ctx cfg) (fullKey cfg key) of
        None \<Rightarrow> Inl (missing cfg key) | Some v \<Rightarrow> Inr (castToFloat64 (ctx cfg) v))"

definition cfgGetSecret :: "cap \<Rightarrow> Config \<Rightarrow> string \<Rightarrow> dyn" where
  "cfgGetSecret c cfg key = DOutput c (toSecret (ctx cfg) c (fullKey cfg key))"

definition cfgRequireSecret :: "cap \<Rightarrow> Config \<Rightarrow> string \<Rightarrow> error + dyn" where
  "cfgRequireSecret c cfg key =
     (case config (ctx cfg) (fullKey cfg key) of
        None \<Rightarrow> Inl (missing cfg key)
      | Some v \<Rightarrow> Inr (DOutput c (toSecret (ctx cfg) c (fullKey cfg key))))"

section \<open>Binding scalars and deferred values from the Configuration Source\<close>

record configParams =
  fieldName :: string
  isRequired :: bool
  isSecret :: bool

definition getConfigString :: "Config \<Rightarrow> configParams \<Rightarrow> error + string" where
  "getConfigString cfg params =
     (if isRequired params then cfgRequire cfg (fieldName params)
      else Inr (cfgGet cfg (fieldName params)))"

definition getConfigBool :: "Config \<Rightarrow> configParams \<Rightarrow> error + bool" where
  "getConfigBool cfg params =
     (if isRequired params then cfgRequireBool cfg (fieldName params)
      else Inr (cfgGetBool cfg (fieldName params)))"

definition getConfigInt :: "Config \<Rightarrow> configParams \<Rightarrow> error + int" where
  "getConfigInt cfg params =
     (if isRequired params then cfgRequireInt cfg (fieldName params)
      else Inr (cfgGetInt cfg (fieldName params)))"

definition getConfigFloat :: "Config \<Rightarrow> configParams \<Rightarrow> error + real" where
  "getConfigFloat cfg params =
     (if isRequired params then cfgRequireFloat64 cfg (fieldName params)
      else Inr (cfgGetFloat64 cfg (fieldName params)))"

definition getSecretString :: "Config \<Rightarrow> configParams \<Rightarrow> error + dyn" where
  "getSecretString cfg params =
     (if isRequired params then cfgRequireSecret CString cfg (fieldName params)
      else Inr (cfgGetSecret CString cfg (fieldName params)))"

definition getSecretBool :: "Config \<Rightarrow> configParams \<Rightarrow> error + dyn" where
  "getSecretBool cfg params =
     (if isRequired params then cfgRequireSecret CBool cfg (fieldName params)
      else Inr (cfgGetSecret CBool cfg (fieldName params)))"

definition getSecretInt :: "Config \<Rightarrow> configParams \<Rightarrow> error + dyn" where
  "getSecretInt cfg params =
     (if isRequired params then cfgRequireSecret CInt cfg (fieldName params)
      else Inr (cfgGetSecret CInt cfg (fieldName params)))"

definition getSecretFloat :: "Config \<Rightarrow> configParams \<Rightarrow> error + dyn" where
  "getSecretFloat cfg params =
     (if isRequired params then cfgRequireSecret CFloat64 cfg (fieldName params)
      else Inr (cfgGetSecret CFloat64 cfg (fieldName params)))"

text \<open>The argument \<^verbatim>\<open>curr\<close> (here \<open>cur\<close>) is an \<^verbatim>\<open>interface{}\<close>: \<open>None\<close> is the nil
  interface, which is what \<^verbatim>\<open>curr == nil\<close> tests. An interface that holds a nil map or
  any pointer is not nil.\<close>

definition loadJsonConfig :: "Config \<Rightarrow> string \<Rightarrow> bool \<Rightarrow> gvalue option \<Rightarrow> error + string" where
  "loadJsonConfig cfg name required cur =
     (let cfgJson = cfgGet cfg name
      in if required \<and> cur = None \<and> cfgJson = [] then
           Inl (Errorf ''config %s is required'' [AStr name] None)
         else if cfgJson = [] then Inl ErrJsonEmpty
         else Inr cfgJson)"

definition UnmarshalJSONConfig ::
  "(string \<Rightarrow> error + json) \<Rightarrow> string \<Rightarrow> gvalue option \<Rightarrow> gvalue option \<times> error option" where
  "UnmarshalJSONConfig decode data obj =
     (if data = [] then (obj, None)
      else case decode data of
             Inl err \<Rightarrow>
               (obj, Some (wrapError ''failed to unmarshal json (%s) into interface{}: %w''
                             [AStr data] err))
           | Inr (JArray val) \<Rightarrow> unmarshallJSONArray val obj
           | Inr (JObject val) \<Rightarrow> unmarshallJSONMap val obj
           | Inr tmp \<Rightarrow> (obj, Some (Errorf ''unsupported type %v'' [ATypeOf tmp] None)))"

text \<open>
  \<^verbatim>\<open>ExtractConfig\<close>. The field's key and secrecy come from the first tag present among
  config, json and secret. The body of the loop is \<open>extractValue\<close>, one equation for each
  case of the switch on the field's kind. Besides the field as the turn leaves it, it
  gives the keys it read from the Configuration Source and the error that ends the call,
  if any.
\<close>

definition configKey :: "tags \<Rightarrow> (string \<times> bool) option" where
  "configKey ts =
     (if tagGet ts ''config'' \<noteq> [] then Some (tagGet ts ''config'', False)
      else if tagGet ts ''json'' \<noteq> [] then Some (tagGet ts ''json'', False)
      else if tagGet ts ''secret'' \<noteq> [] then Some (tagGet ts ''secret'', True)
      else None)"

definition secretNotOutput :: "string \<Rightarrow> error" where
  "secretNotOutput name =
     Errorf ''field '%s' is marked as secret but type is not a pulumi output'' [AStr name] None"

text \<open>\<^verbatim>\<open>reflect.Value.Int\<close> and \<^verbatim>\<open>SetInt\<close> panic on a value of an unsigned kind.\<close>

fun unsigned :: "ikind \<Rightarrow> bool" where
  "unsigned IUint = True"
| "unsigned IUint8 = True"
| "unsigned IUint16 = True"
| "unsigned IUint32 = True"
| "unsigned IUint64 = True"
| "unsigned _ = False"

fun bits :: "ikind \<Rightarrow> nat" where
  "bits IInt8 = 8"
| "bits IInt16 = 16"
| "bits IInt32 = 32"
| "bits IUint8 = 8"
| "bits IUint16 = 16"
| "bits IUint32 = 32"
| "bits _ = 64"

definition SetFloat :: "Context \<Rightarrow> fkind \<Rightarrow> real \<Rightarrow> gvalue" where
  "SetFloat c k x = VFloat k (case k of FFloat32 \<Rightarrow> float32 c x | FFloat64 \<Rightarrow> x)"

text \<open>
  The case for struct, pointer, array and slice. \<^verbatim>\<open>val\<close> is the field itself if it is a
  non-nil pointer, and a pointer to a new zero value if it is a nil pointer; for the
  other kinds it is the address of the field if the field is not zero, and else
  \<^verbatim>\<open>reflect.New(ff.Type)\<close>, a pointer to a new zero value, which is a copy of the zero
  field. After \<^verbatim>\<open>UnmarshalJSONConfig\<close> has run on \<^verbatim>\<open>val\<close>: on success the field is set
  from \<^verbatim>\<open>val\<close>; on failure it is not, but where \<^verbatim>\<open>val\<close> is the field's own address
  or pointer the call has already worked on the field itself.
\<close>

definition boundValue :: "gvalue \<Rightarrow> gvalue option \<Rightarrow> gvalue" where
  "boundValue fv obj' =
     (if kind_of fv = KPointer then (case obj' of Some v \<Rightarrow> v | None \<Rightarrow> fv)
      else pointee obj' fv)"

definition failedValue :: "gvalue \<Rightarrow> gvalue option \<Rightarrow> gvalue" where
  "failedValue fv obj' =
     (case fv of
        VPtr p \<Rightarrow> (case obj' of Some v \<Rightarrow> v | None \<Rightarrow> fv)
      | VNil t \<Rightarrow> fv
      | _ \<Rightarrow> if IsZero fv then fv else pointee obj' fv)"

definition extractStructural ::
  "Config \<Rightarrow> string \<Rightarrow> bool \<Rightarrow> gvalue \<Rightarrow> gvalue \<times> string list \<times> error option" where
  "extractStructural cfg name required fv =
     (let val = (case fv of VPtr p \<Rightarrow> fv | VNil t \<Rightarrow> VPtr (zero t) | _ \<Rightarrow> VPtr fv)
      in case loadJsonConfig cfg name required (Some val) of
           Inl err \<Rightarrow>
             if errorsIs err ErrJsonEmpty then (fv, [fullKey cfg name], None)
             else (fv, [fullKey cfg name],
                   Some (wrapError ''failed to load json config for field '%s': %w'' [AStr name] err))
         | Inr data \<Rightarrow>
             (case UnmarshalJSONConfig (jsonUnmarshal (ctx cfg)) data (Some val) of
                (obj', Some err) \<Rightarrow>
                  (failedValue fv obj', [fullKey cfg name],
                   Some (wrapError ''failed to unmarshal json config for field '%s': %w'' [AStr name] err))
              | (obj', None) \<Rightarrow> (boundValue fv obj', [fullKey cfg name], None)))"

fun extractValue ::
  "Config \<Rightarrow> string \<Rightarrow> bool \<Rightarrow> bool \<Rightarrow> gvalue \<Rightarrow> gvalue \<times> string list \<times> error option" where
  "extractValue cfg name required secret (VBool b) =
     (case getConfigBool cfg \<lparr>fieldName = name, isRequired = required \<and> b, isSecret = secret\<rparr> of
        Inl e \<Rightarrow> (VBool b, [fullKey cfg name], Some e)
      | Inr val \<Rightarrow>
          if secret then (VBool b, [fullKey cfg name], Some (secretNotOutput name))
          else (if val then VBool val else VBool b, [fullKey cfg name], None))"
| "extractValue cfg name required secret (VInt k n) =
     (if required \<and> unsigned k then
        (VInt k n, [], Some (Panic ''reflect: call of reflect.Value.Int on uint Value''))
      else
        case getConfigInt cfg \<lparr>fieldName = name, isRequired = required \<and> n = 0, isSecret = secret\<rparr> of
          Inl e \<Rightarrow> (VInt k n, [fullKey cfg name], Some e)
        | Inr val \<Rightarrow>
            if secret then (VInt k n, [fullKey cfg name], Some (secretNotOutput name))
            else if val \<noteq> 0 then
              (if unsigned k then
                 (VInt k n, [fullKey cfg name],
                  Some (Panic ''reflect: call of reflect.Value.SetInt on uint Value''))
               else (VInt k (signedWrap (bits k) val), [fullKey cfg name], None))
            else (VInt k n, [fullKey cfg name], None))"
| "extractValue cfg name required secret (VFloat k x) =
     (case getConfigFloat cfg \<lparr>fieldName = name, isRequired = required \<and> x = 0, isSecret = secret\<rparr> of
        Inl e \<Rightarrow> (VFloat k x, [fullKey cfg name], Some e)
      | Inr val \<Rightarrow>
          if secret then (VFloat k x, [fullKey cfg name], Some (secretNotOutput name))
          else (if val \<noteq> 0 then SetFloat (ctx cfg) k val else VFloat k x, [fullKey cfg name], None))"
| "extractValue cfg name required secret (VString s) =
     (case getConfigString cfg \<lparr>fieldName = name, isRequired = required \<and> s = [], isSecret = secret\<rparr> of
        Inl e \<Rightarrow> (VString s, [fullKey cfg name], Some e)
      | Inr val \<Rightarrow>
          if secret then (VString s, [fullKey cfg name], Some (secretNotOutput name))
          else (if val \<noteq> [] then VString val else VString s, [fullKey cfg name], None))"
| "extractValue cfg name required secret (VMap kt vt m) =
     (case loadJsonConfig cfg name required (Some (VMap kt vt m)) of
        Inl err \<Rightarrow>
          if errorsIs err ErrJsonEmpty then (VMap kt vt m, [fullKey cfg name], None)
          else (VMap kt vt m, [fullKey cfg name],
                Some (wrapError ''failed to load json config for field '%s': %w'' [AStr name] err))
      | Inr bytes \<Rightarrow>
          (case jsonUnmarshalMap (ctx cfg) bytes (VMap kt vt m) of
             (v, Some err) \<Rightarrow>
               (v, [fullKey cfg name],
                Some (wrapError ''failed to unmarshal json config for field '%s': %w'' [AStr name] err))
           | (v, None) \<Rightarrow> (v, [fullKey cfg name], None)))"
| "extractValue cfg name required secret (VStruct fs) = extractStructural cfg name required (VStruct fs)"
| "extractValue cfg name required secret (VNil t) = extractStructural cfg name required (VNil t)"
| "extractValue cfg name required secret (VPtr p) = extractStructural cfg name required (VPtr p)"
| "extractValue cfg name required secret (VArray xs) = extractStructural cfg name required (VArray xs)"
| "extractValue cfg name required secret (VSlice t xs) = extractStructural cfg name required (VSlice t xs)"
| "extractValue cfg name required secret (VIface StringInput d) =
     (let ok = (case d of Some (DString _) \<Rightarrow> True | _ \<Rightarrow> False);
          params = \<lparr>fieldName = name,
                    isRequired = required \<and> (d = None \<or> d = Some (DString [])),
                    isSecret = secret\<rparr>
      in if secret then
           (case getSecretString cfg params of
              Inl e \<Rightarrow> (VIface StringInput d, [fullKey cfg name], Some e)
            | Inr out \<Rightarrow> (VIface StringInput (Some out), [fullKey cfg name], None))
         else
           (case getConfigString cfg params of
              Inl e \<Rightarrow> (VIface StringInput d, [fullKey cfg name], Some e)
            | Inr val \<Rightarrow>
                (if val \<noteq> [] \<and> (ok \<or> d = None) then VIface StringInput (Some (DString val))
                 else VIface StringInput d,
                 [fullKey cfg name], None)))"
| "extractValue cfg name required secret (VIface BoolInput d) =
     (let ok = (case d of Some (DBool _) \<Rightarrow> True | _ \<Rightarrow> False);
          params = \<lparr>fieldName = name,
                    isRequired = required \<and> (d = None \<or> d = Some (DBool False)),
                    isSecret = secret\<rparr>
      in if secret then
           (case getSecretBool cfg params of
              Inl e \<Rightarrow> (VIface BoolInput d, [fullKey cfg name], Some e)
            | Inr out \<Rightarrow> (VIface BoolInput (Some out), [fullKey cfg name], None))
         else
           (case getConfigBool cfg params of
              Inl e \<Rightarrow> (VIface BoolInput d, [fullKey cfg name], Some e)
            | Inr val \<Rightarrow>
                (if val \<and> (ok \<or> d = None) then VIface BoolInput (Some (DBool val))
                 else VIface BoolInput d,
                 [fullKey cfg name], None)))"
| "extractValue cfg name required secret (VIface IntInput d) =
     (let ok = (case d of Some (DInt _) \<Rightarrow> True | _ \<Rightarrow> False);
          params = \<lparr>fieldName = name,
                    isRequired = required \<and> (d = None \<or> d = Some (DInt 0)),
                    isSecret = secret\<rparr>
      in if secret then
           (case getSecretInt cfg params of
              Inl e \<Rightarrow> (VIface IntInput d, [fullKey cfg name], Some e)
            | Inr out \<Rightarrow> (VIface IntInput (Some out), [fullKey cfg name], None))
         else
           (case getConfigInt cfg params of
              Inl e \<Rightarrow> (VIface IntInput d, [fullKey cfg name], Some e)
            | Inr val \<Rightarrow>
                (if val \<noteq> 0 \<and> (ok \<or> d = None) then VIface IntInput (Some (DInt val))
                 else VIface IntInput d,
                 [fullKey cfg name], None)))"
| "extractValue cfg name required secret (VIface Float64Input d) =
     (let ok = (case d of Some (DFloat64 _) \<Rightarrow> True | _ \<Rightarrow> False);
          params = \<lparr>fieldName = name,
                    isRequired = required \<and> (d = None \<or> d = Some (DFloat64 0)),
                    isSecret = secret\<rparr>
      in if secret then
           (case getSecretFloat cfg params of
              Inl e \<Rightarrow> (VIface Float64Input d, [fullKey cfg name], Some e)
            | Inr out \<Rightarrow> (VIface Float64Input (Some out), [fullKey cfg name], None))
         else
           (case getConfigFloat cfg params of
              Inl e \<Rightarrow> (VIface Float64Input d, [fullKey cfg name], Some e)
            | Inr val \<Rightarrow>
                (if val \<noteq> 0 \<and> (ok \<or> d = None) then VIface Float64Input (Some (DFloat64 val))
                 else VIface Float64Input d,
                 [fullKey cfg name], None)))"
| "extractValue cfg name required secret (VIface (OtherInterface n) d) =
     (VIface (OtherInterface n) d, [], None)"
| "extractValue cfg name required secret (VOther k n) =
     (VOther k n, [],
      Some (Errorf ''unsupported field name: %s, type: %v'' [AStr name, AKind (kind_of_okind k)] None))"

fun extractFields :: "Config \<Rightarrow> field list \<Rightarrow> field list \<times> string list \<times> error option" where
  "extractFields cfg [] = ([], [], None)"
| "extractFields cfg (Field n ts fv # fs) =
     (case configKey ts of
        None \<Rightarrow> (case extractFields cfg fs of (fs', r, e) \<Rightarrow> (Field n ts fv # fs', r, e))
      | Some (name, secret) \<Rightarrow>
          (case extractValue cfg name (tagLookup ts ''required'') secret fv of
             (v, r, Some e) \<Rightarrow> (Field n ts v # fs, r, Some e)
           | (v, r, None) \<Rightarrow>
               (case extractFields cfg fs of (fs', r', e) \<Rightarrow> (Field n ts v # fs', r @ r', e))))"

definition ExtractConfig ::
  "Context \<Rightarrow> string \<Rightarrow> gvalue option \<Rightarrow> gvalue option \<times> string list \<times> error option" where
  "ExtractConfig c ns obj =
     (let cfg = config_New c ns
      in case obj of
           Some (VPtr (VStruct fs)) \<Rightarrow>
             (case extractFields cfg fs of (fs', r, e) \<Rightarrow> (Some (VPtr (VStruct fs')), r, e))
         | _ \<Rightarrow> (obj, [], Some errNotStructPtr))"

section \<open>The serializer\<close>

text \<open>\<^verbatim>\<open>field.Interface()\<close>: the dynamic value of an interface field (nil if it holds
  none), the value itself for any other field.\<close>

datatype boxed = BNil | BDyn dyn | BVal gvalue

fun Interface :: "gvalue \<Rightarrow> boxed" where
  "Interface (VIface i None) = BNil"
| "Interface (VIface i (Some d)) = BDyn d"
| "Interface v = BVal v"

fun placeholder :: "cap \<Rightarrow> string" where
  "placeholder CString = ''[StringOutput]''"
| "placeholder CBool = ''[BoolOutput]''"
| "placeholder CInt = ''[IntOutput]''"
| "placeholder CFloat64 = ''[Float64Output]''"

definition marshalKey :: "field \<Rightarrow> string" where
  "marshalKey f = (if tagGet (ftags f) ''json'' = [] then fname f else tagGet (ftags f) ''json'')"

text \<open>One turn of the loop of \<^verbatim>\<open>MarshalJSONConfig\<close>: the type switch on the field's
  value.\<close>

definition processField :: "(string \<rightharpoonup> boxed) \<Rightarrow> field \<Rightarrow> (string \<rightharpoonup> boxed)" where
  "processField processedMetadata f =
     (case Interface (fvalue f) of
        BDyn (DOutput c h) \<Rightarrow> processedMetadata(marshalKey f \<mapsto> BVal (VString (placeholder c)))
      | v \<Rightarrow> processedMetadata(marshalKey f \<mapsto> v))"

definition processFields :: "field list \<Rightarrow> (string \<rightharpoonup> boxed)" where
  "processFields fs = foldl processField Map.empty fs"

text \<open>\<^verbatim>\<open>json.Marshal\<close> of the map is the library's; it is the parameter \<open>marshal\<close>.\<close>

definition MarshalJSONConfig ::
  "((string \<rightharpoonup> boxed) \<Rightarrow> error + string) \<Rightarrow> gvalue option \<Rightarrow> error + string" where
  "MarshalJSONConfig marshal obj =
     (case obj of
        None \<Rightarrow> Inl (Errorf ''provided interface is not a struct: %v'' [AKind KInvalid] None)
      | Some (VNil t) \<Rightarrow> Inl (Errorf ''provided interface is not a struct: %v'' [AKind KInvalid] None)
      | Some (VPtr (VStruct fs)) \<Rightarrow> marshal (processFields fs)
      | Some (VPtr v) \<Rightarrow> Inl (Errorf ''provided interface is not a struct: %v'' [AKind (kind_of v)] None)
      | Some (VStruct fs) \<Rightarrow> marshal (processFields fs)
      | Some v \<Rightarrow> Inl (Errorf ''provided interface is not a struct: %v'' [AKind (kind_of v)] None))"

section \<open>Notions used in the statements\<close>

text \<open>A literal wrapper of the capability that an Input interface asks for.\<close>

fun literalOf :: "iface \<Rightarrow> dyn \<Rightarrow> bool" where
  "literalOf StringInput (DString _) = True"
| "literalOf BoolInput (DBool _) = True"
| "literalOf IntInput (DInt _) = True"
| "literalOf Float64Input (DFloat64 _) = True"
| "literalOf _ _ = False"

text \<open>The literal wrapper of what the plain accessor of that capability reads.\<close>

fun plainRead :: "Config \<Rightarrow> iface \<Rightarrow> string \<Rightarrow> dyn" where
  "plainRead cfg StringInput name = DString (cfgGet cfg name)"
| "plainRead cfg BoolInput name = DBool (cfgGetBool cfg name)"
| "plainRead cfg IntInput name = DInt (cfgGetInt cfg name)"
| "plainRead cfg Float64Input name = DFloat64 (cfgGetFloat64 cfg name)"
| "plainRead cfg (OtherInterface n) name = DOther n"

fun zeroLiteral :: "dyn \<Rightarrow> bool" where
  "zeroLiteral (DString s) = (s = [])"
| "zeroLiteral (DBool b) = (\<not> b)"
| "zeroLiteral (DInt n) = (n = 0)"
| "zeroLiteral (DFloat64 x) = (x = 0)"
| "zeroLiteral _ = False"

text \<open>The fields of the struct that a call leaves behind its pointer argument.\<close>

fun targetFields :: "gvalue option \<Rightarrow> field list" where
  "targetFields (Some (VPtr (VStruct fs))) = fs"
| "targetFields _ = []"

text \<open>The scalar kinds: bool, the integers, the floats, string. A field takes part in
  \<^verbatim>\<open>ExtractConfig\<close> only if it has a config, json or secret tag.\<close>

fun scalar :: "gvalue \<Rightarrow> bool" where
  "scalar (VBool _) = True"
| "scalar (VInt _ _) = True"
| "scalar (VFloat _ _) = True"
| "scalar (VString _) = True"
| "scalar _ = False"

definition scalarField :: "field \<Rightarrow> bool" where
  "scalarField f = (configKey (ftags f) = None \<or> scalar (fvalue f))"

text \<open>What a call of \<^verbatim>\<open>ExtractConfig\<close> can have done to one field: nothing (the field is
  untagged, or the call ended before its turn), or one turn of the loop.\<close>

definition stepped :: "Config \<Rightarrow> field \<Rightarrow> field \<Rightarrow> bool" where
  "stepped cfg f f' =
     (f' = f \<or> (\<exists>name sec. configKey (ftags f) = Some (name, sec)
        \<and> f' = Field (fname f) (ftags f)
               (fst (extractValue cfg name (tagLookup (ftags f) ''required'') sec (fvalue f)))))"

section \<open>Concrete targets and configurations\<close>

text \<open>Two engine states for concrete runs: project \<open>demo\<close> with no configuration at all,
  and one with a few keys of the namespace \<open>pg\<close>. Their JSON decoder knows the
  documents that are configured.\<close>

definition emptyContext :: Context where
  "emptyContext =
     \<lparr>project = ''demo'', config = Map.empty,
      castToBool = (\<lambda>s. s = ''true''), castToInt = (\<lambda>s. 0), castToFloat64 = (\<lambda>s. 0),
      toSecret = (\<lambda>c k. 1),
      jsonUnmarshal = (\<lambda>s. Inl (ErrorsNew ''unexpected end of JSON input'')),
      jsonUnmarshalMap = (\<lambda>s v. (v, Some (ErrorsNew ''unexpected end of JSON input''))),
      float32 = (\<lambda>x. x)\<rparr>"

definition pgContext :: Context where
  \<open>pgContext =
     \<lparr>project = ''demo'',
      config = [''pg:database'' \<mapsto> ''app'', ''pg:host'' \<mapsto> ''db.internal'',
                ''pg:port'' \<mapsto> ''5432'', ''pg:creds'' \<mapsto> ''{"user":"admin"}'',
                ''pg:db'' \<mapsto> ''{"dbRoles":{"permission":"ro"}}''],
      castToBool = (\<lambda>s. s = ''true''),
      castToInt = (\<lambda>s. if s = ''5432'' then 5432 else 0),
      castToFloat64 = (\<lambda>s. 0),
      toSecret = (\<lambda>c k. 1),
      jsonUnmarshal =
        (\<lambda>s. if s = ''{"user":"admin"}'' then Inr (JObject [(''user'', JString ''admin'')])
             else if s = ''{"dbRoles":{"permission":"ro"}}''
               then Inr (JObject [(''dbRoles'', JObject [(''permission'', JString ''ro'')])])
             else Inl (ErrorsNew ''invalid character'')),
      jsonUnmarshalMap = (\<lambda>s v. (v, Some (ErrorsNew ''invalid character''))),
      float32 = (\<lambda>x. x)\<rparr>\<close>

text \<open>Targets shaped like the structs of the repository: a required flag, the database
  properties with their roles, a list of users, the provider arguments.\<close>

definition flagTarget :: "bool \<Rightarrow> gvalue option" where
  "flagTarget b =
     Some (VPtr (VStruct [Field ''Flag'' [(''required'', []), (''json'', ''flag'')] (VBool b)]))"

definition dbRoleT :: gtype where
  "dbRoleT = TStruct [Decl ''Permission'' [(''json'', ''permission'')] TString]"

definition dbProps :: "string \<Rightarrow> gvalue list option \<Rightarrow> gvalue" where
  "dbProps db roles =
     VStruct [Field ''Database'' [(''json'', ''database'')] (VString db),
              Field ''DbRoles'' [(''json'', ''dbRoles'')] (VSlice dbRoleT roles)]"

definition pgTarget :: "gvalue \<Rightarrow> gvalue option" where
  "pgTarget db =
     Some (VPtr (VStruct [Field ''Database'' [(''json'', ''database''), (''required'', [])] db]))"

definition dbTarget :: "gvalue \<Rightarrow> gvalue option" where
  "dbTarget db = Some (VPtr (VStruct [Field ''Database'' [(''json'', ''db'')] db]))"

definition credsTarget :: "string \<Rightarrow> gvalue option" where
  "credsTarget u =
     Some (VPtr (VStruct [Field ''Creds'' [(''secret'', ''creds'')]
                            (VStruct [Field ''User'' [(''json'', ''user'')] (VString u)])]))"

definition userT :: gtype where
  "userT = TStruct [Decl ''Username'' [(''json'', ''username'')] TString,
                    Decl ''Login'' [(''json'', ''login'')] TBool]"

definition user :: "string \<Rightarrow> bool \<Rightarrow> gvalue" where
  "user u l = VStruct [Field ''Username'' [(''json'', ''username'')] (VString u),
                       Field ''Login'' [(''json'', ''login'')] (VBool l)]"

definition providerFields :: "dyn option \<Rightarrow> field list" where
  "providerFields host =
     [Field ''Host'' [(''required'', []), (''json'', ''host'')] (VIface StringInput host),
      Field ''Port'' [(''required'', []), (''json'', ''port'')] (VInt IInt 0),
      Field ''DisableSSL'' [(''json'', ''disableSSL'')] (VBool False)]"

definition secretFields :: "nat \<Rightarrow> field list" where
  "secretFields h =
     [Field ''Host'' [(''json'', ''host'')] (VIface StringInput (Some (DString ''db.internal''))),
      Field ''SuperuserPassword'' [(''secret'', ''superuserPassword'')]
        (VIface StringInput (Some (DOutput CString h))),
      Field ''Port'' [(''json'', ''port'')] (VInt IInt 5432)]"

definition collidingFields :: "field list" where
  "collidingFields =
     [Field ''Token'' [(''json'', ''token'')] (VIface StringInput (Some (DOutput CString 7))),
      Field ''Note'' [(''json'', ''token'')] (VString ''plain'')]"

text \<open>A stand-in for \<^verbatim>\<open>json.Marshal\<close> that shows the text stored under one key.\<close>

definition showKey :: "string \<Rightarrow> (string \<rightharpoonup> boxed) \<Rightarrow> error + string" where
  "showKey k m =
     (case m k of Some (BVal (VString s)) \<Rightarrow> Inr s
      | _ \<Rightarrow> Inl (ErrorsNew ''json: unsupported value''))"

section \<open>Entry checks\<close>

text \<open>
  C10. Whatever is passed that is not a non-nil pointer to a struct (the nil interface, a
  nil pointer, a struct by value, a pointer to anything else), \<^verbatim>\<open>ExtractConfig\<close> and
  \<^verbatim>\<open>unmarshallJSONMap\<close> return the error "obj must be a pointer to a struct"; the
  argument is given back as it was and no configuration key has been read.
\<close>

theorem entry_check_rejects_non_struct_pointer:
  assumes "\<not> (\<exists>fs. obj = Some (VPtr (VStruct fs)))"
  shows "ExtractConfig c ns obj = (obj, [], Some (ErrorsNew ''obj must be a pointer to a struct''))
       \<and> unmarshallJSONMap dict obj = (obj, Some (ErrorsNew ''obj must be a pointer to a struct''))"
proof
  show "ExtractConfig c ns obj = (obj, [], Some (ErrorsNew ''obj must be a pointer to a struct''))"
    using assms
    by (auto simp: ExtractConfig_def errNotStructPtr_def split: option.splits gvalue.splits)
  show "unmarshallJSONMap dict obj = (obj, Some (ErrorsNew ''obj must be a pointer to a struct''))"
    using assms
    by (cases "(dict, obj)" rule: unmarshallJSONMap.cases) (auto simp: errNotStructPtr_def)
qed

theorem entry_check_witness:
  "\<not> (\<exists>fs. Some (VNil (TStruct [])) = Some (VPtr (VStruct fs)))
   \<and> ExtractConfig emptyContext ''pg'' (Some (VNil (TStruct [])))
       = (Some (VNil (TStruct [])), [], Some (ErrorsNew ''obj must be a pointer to a struct''))
   \<and> unmarshallJSONMap [(''host'', JString ''db'')] (Some (VNil (TStruct [])))
       = (Some (VNil (TStruct [])), Some (ErrorsNew ''obj must be a pointer to a struct''))"
proof -
  have h: "\<not> (\<exists>fs. Some (VNil (TStruct [])) = Some (VPtr (VStruct fs)))" by simp
  show ?thesis
    using h entry_check_rejects_non_struct_pointer
      [OF h, of emptyContext "''pg''" "[(''host'', JString ''db'')]"]
    by simp
qed

section \<open>The append law of \<^verbatim>\<open>unmarshallJSONArray\<close>\<close>

lemma elems_simps: "elems None = []" "elems (Some l) = l"
  by (simp_all add: elems_def)

text \<open>Called on a pointer, \<^verbatim>\<open>unmarshallJSONMap\<close> leaves a pointer.\<close>

lemma unmarshallJSONMap_pointer:
  "\<exists>v'. fst (unmarshallJSONMap d (Some (VPtr v))) = Some (VPtr v')"
  by (cases v) (auto split: prod.splits)

lemma unmarshallJSONMap_pointee:
  "unmarshallJSONMap d (Some (VPtr v)) = (obj', e) \<Longrightarrow> obj' = Some (VPtr (pointee obj' w))"
  using unmarshallJSONMap_pointer [of d v] by auto

text \<open>The loop invariant is that the slice has \<open>L + i\<close> elements when turn \<open>i\<close> begins:
  every turn appends one zero element and binds into it.\<close>

lemma appendLoop_appends:
  "appendLoop arr L i t xs = (zs, None) \<Longrightarrow> length (elems xs) = L + i \<Longrightarrow>
     length (elems zs) = L + i + length arr
   \<and> take (L + i) (elems zs) = elems xs
   \<and> (\<forall>j<length arr. \<exists>d. arr ! j = JObject d
         \<and> unmarshallJSONMap d (Some (VPtr (zero t)))
             = (Some (VPtr (elems zs ! (L + i + j))), None))"
proof (induction arr arbitrary: i xs)
  case Nil
  then show ?case by simp
next
  case (Cons val rest)
  from Cons.prems(1) obtain dict where val: "val = JObject dict"
    by (cases val) auto
  have len: "length (elems xs) = L + i" by fact
  obtain obj' e where call: "unmarshallJSONMap dict (Some (VPtr (zero t))) = (obj', e)"
    by (cases "unmarshallJSONMap dict (Some (VPtr (zero t)))")
  let ?w = "pointee obj' (zero t)"
  have obj': "obj' = Some (VPtr ?w)" using unmarshallJSONMap_pointee [OF call] .
  have unfolded: "appendLoop (val # rest) L i t xs =
      (case e of None \<Rightarrow> appendLoop rest L (Suc i) t (Some (elems xs @ [?w]))
       | Some err \<Rightarrow> (Some (elems xs @ [?w]),
            Some (wrapError ''failed to unmarshal json array at index %d: %w'' [ANat i] err)))"
  proof -
    have upd: "(elems xs @ [zero t])[L + i := ?w] = elems xs @ [?w]"
      using len [symmetric] by simp
    show ?thesis
      using val call by (simp add: Let_def elems_simps nth_append len upd)
  qed
  with Cons.prems(1) have e: "e = None"
    and rec: "appendLoop rest L (Suc i) t (Some (elems xs @ [?w])) = (zs, None)"
    by (auto split: option.splits)
  have len': "length (elems (Some (elems xs @ [?w]))) = L + Suc i"
    using len by (simp add: elems_simps)
  note IH = Cons.IH [OF rec len']
  from IH have l: "length (elems zs) = L + Suc i + length rest"
    and tk: "take (L + Suc i) (elems zs) = elems xs @ [?w]"
    and el: "\<forall>j<length rest. \<exists>d. rest ! j = JObject d
         \<and> unmarshallJSONMap d (Some (VPtr (zero t)))
             = (Some (VPtr (elems zs ! (L + Suc i + j))), None)"
    by (simp_all add: elems_simps)
  have tk0: "take (L + i) (elems zs) = elems xs"
  proof -
    have "take (L + i) (elems zs) = take (L + i) (take (L + Suc i) (elems zs))" by simp
    also have "\<dots> = elems xs" using tk len by simp
    finally show ?thesis .
  qed
  have at: "elems zs ! (L + i) = ?w"
  proof -
    have "elems zs ! (L + i) = take (L + Suc i) (elems zs) ! (L + i)" by simp
    also have "\<dots> = ?w" using tk len by (simp add: nth_append)
    finally show ?thesis .
  qed
  have all: "\<exists>d. (val # rest) ! j = JObject d
         \<and> unmarshallJSONMap d (Some (VPtr (zero t)))
             = (Some (VPtr (elems zs ! (L + i + j))), None)"
    if "j < length (val # rest)" for j
  proof (cases j)
    case 0
    then show ?thesis using val call obj' e at by simp
  next
    case (Suc k)
    then show ?thesis using el that by simp
  qed
  show ?case using l tk0 all by simp
qed

lemma unmarshallJSONArray_appends:
  assumes "unmarshallJSONArray arr (Some (VPtr (VSlice t xs))) = (r, None)"
  shows "\<exists>zs. r = Some (VPtr (VSlice t zs))
     \<and> length (elems zs) = length (elems xs) + length arr
     \<and> take (length (elems xs)) (elems zs) = elems xs
     \<and> (\<forall>j<length arr. \<exists>d. arr ! j = JObject d
         \<and> unmarshallJSONMap d (Some (VPtr (zero t)))
             = (Some (VPtr (elems zs ! (length (elems xs) + j))), None))"
proof -
  obtain zs e where run: "appendLoop arr (length (elems xs)) 0 t xs = (zs, e)"
    by (cases "appendLoop arr (length (elems xs)) 0 t xs")
  with assms have r: "r = Some (VPtr (VSlice t zs))" and e: "e = None" by auto
  from appendLoop_appends [of arr "length (elems xs)" 0 t xs zs] run e r
  show ?thesis by simp
qed

text \<open>
  C1. Append law. Bind an array \<open>A\<close> into a nil or empty slice, then an array \<open>B\<close> into
  the slice that results, both calls returning without error. The final slice has
  \<open>length A + length B\<close> elements; its first \<open>length A\<close> elements are the slice that
  binding \<open>A\<close> alone gave; and element \<open>length A + i\<close> is what binding the object
  \<open>B ! i\<close> into a fresh zero element gives.
\<close>

theorem append_law:
  assumes a: "unmarshallJSONArray A (Some (VPtr (VSlice t xs))) = (r1, None)"
    and empty: "elems xs = []"
    and b: "unmarshallJSONArray B r1 = (r2, None)"
  shows "\<exists>s1 s2. r1 = Some (VPtr (VSlice t s1)) \<and> r2 = Some (VPtr (VSlice t s2))
     \<and> length (elems s1) = length A
     \<and> length (elems s2) = length A + length B
     \<and> take (length A) (elems s2) = elems s1
     \<and> (\<forall>i<length B. \<exists>d. B ! i = JObject d
         \<and> unmarshallJSONMap d (Some (VPtr (zero t)))
             = (Some (VPtr (elems s2 ! (length A + i))), None))"
proof -
  from unmarshallJSONArray_appends [OF a] empty obtain s1 where
    r1: "r1 = Some (VPtr (VSlice t s1))" and l1: "length (elems s1) = length A" by auto
  from unmarshallJSONArray_appends [OF b [unfolded r1]] obtain s2 where
    r2: "r2 = Some (VPtr (VSlice t s2))"
    and l2: "length (elems s2) = length (elems s1) + length B"
    and tk: "take (length (elems s1)) (elems s2) = elems s1"
    and el: "\<forall>j<length B. \<exists>d. B ! j = JObject d
         \<and> unmarshallJSONMap d (Some (VPtr (zero t)))
             = (Some (VPtr (elems s2 ! (length (elems s1) + j))), None)"
    by auto
  show ?thesis using r1 r2 l1 l2 tk el by simp
qed

theorem append_law_witness:
  "unmarshallJSONArray
      [JObject [(''username'', JString ''a'')], JObject [(''username'', JString ''b'')]]
      (Some (VPtr (VSlice userT None)))
     = (Some (VPtr (VSlice userT (Some [user ''a'' False, user ''b'' False]))), None)
   \<and> elems None = []
   \<and> unmarshallJSONArray
        [JObject [(''username'', JString ''c''), (''login'', JBool True)]]
        (Some (VPtr (VSlice userT (Some [user ''a'' False, user ''b'' False]))))
     = (Some (VPtr (VSlice userT (Some [user ''a'' False, user ''b'' False, user ''c'' True]))), None)
   \<and> length [user ''a'' False, user ''b'' False, user ''c'' True] = 2 + 1
   \<and> take 2 [user ''a'' False, user ''b'' False, user ''c'' True] = [user ''a'' False, user ''b'' False]
   \<and> unmarshallJSONMap [(''username'', JString ''c''), (''login'', JBool True)]
        (Some (VPtr (zero userT)))
     = (Some (VPtr (user ''c'' True)), None)"
proof -
  have h1: "unmarshallJSONArray
      [JObject [(''username'', JString ''a'')], JObject [(''username'', JString ''b'')]]
      (Some (VPtr (VSlice userT None)))
     = (Some (VPtr (VSlice userT (Some [user ''a'' False, user ''b'' False]))), None)"
    by code_simp
  have h2: "elems None = []" by (simp add: elems_def)
  have h3: "unmarshallJSONArray
        [JObject [(''username'', JString ''c''), (''login'', JBool True)]]
        (Some (VPtr (VSlice userT (Some [user ''a'' False, user ''b'' False]))))
     = (Some (VPtr (VSlice userT (Some [user ''a'' False, user ''b'' False, user ''c'' True]))), None)"
    by code_simp
  from append_law [OF h1 h2 h3]
  have "unmarshallJSONMap [(''username'', JString ''c''), (''login'', JBool True)]
        (Some (VPtr (zero userT)))
     = (Some (VPtr (user ''c'' True)), None)"
    by (auto simp: elems_simps)
  then show ?thesis using h1 h2 h3 by simp
qed

section \<open>What one call does to one field\<close>

lemmas accessor_defs =
  getConfigString_def getConfigBool_def getConfigInt_def getConfigFloat_def
  cfgGet_def cfgRequire_def cfgGetBool_def cfgRequireBool_def cfgGetInt_def cfgRequireInt_def
  cfgGetFloat64_def cfgRequireFloat64_def

lemma extractFields_Cons:
  "\<exists>f' tl. fst (extractFields cfg (f # fs)) = f' # tl
      \<and> (tl = fs \<or> tl = fst (extractFields cfg fs)) \<and> stepped cfg f f'"
  by (cases f) (auto simp: stepped_def split: option.splits prod.splits)

lemma extractFields_length: "length (fst (extractFields cfg fs)) = length fs"
  by (induction cfg fs rule: extractFields.induct) (auto split: option.splits prod.splits)

lemma extractFields_nth:
  "i < length fs \<Longrightarrow> stepped cfg (fs ! i) (fst (extractFields cfg fs) ! i)"
proof (induction fs arbitrary: i)
  case Nil
  then show ?case by simp
next
  case (Cons f fs)
  obtain f' tl where r: "fst (extractFields cfg (f # fs)) = f' # tl"
    and tl: "tl = fs \<or> tl = fst (extractFields cfg fs)" and st: "stepped cfg f f'"
    using extractFields_Cons by blast
  show ?case
  proof (cases i)
    case 0
    then show ?thesis using r st by simp
  next
    case (Suc j)
    then have j: "j < length fs" using Cons.prems by simp
    from tl show ?thesis
    proof
      assume "tl = fs"
      then show ?thesis using r Suc by (simp add: stepped_def)
    next
      assume "tl = fst (extractFields cfg fs)"
      then show ?thesis using r Suc Cons.IH [OF j] by simp
    qed
  qed
qed

lemma ExtractConfig_fields:
  "targetFields (fst (ExtractConfig c ns (Some (VPtr (VStruct fs)))))
     = fst (extractFields (config_New c ns) fs)"
  by (simp add: ExtractConfig_def split: prod.splits)

section \<open>Deferred fields that hold a pending handle\<close>

lemma handle_kept:
  "\<not> literalOf t d \<Longrightarrow>
   fst (extractValue cfg name required False (VIface t (Some d))) = VIface t (Some d)"
  by (cases t; cases d) (auto simp: Let_def accessor_defs split: option.splits)

lemma literal_assigned_only:
  "fst (extractValue cfg name required False (VIface t d)) \<noteq> VIface t d \<Longrightarrow>
     (d = None \<or> (\<exists>d0. d = Some d0 \<and> literalOf t d0))
   \<and> \<not> zeroLiteral (plainRead cfg t name)
   \<and> fst (extractValue cfg name required False (VIface t d)) = VIface t (Some (plainRead cfg t name))"
  by (cases t; cases d)
     (auto simp: Let_def accessor_defs split: option.splits if_splits dyn.splits)

text \<open>
  C8. Take a field of an Input interface type whose key comes from a config or json tag
  (so it is not secret). Whatever the Configuration Source holds, a call of
  \<^verbatim>\<open>ExtractConfig\<close> leaves the field as it was when it holds anything but a literal
  wrapper of its capability, a pending Output in particular. If the call changes the
  field, then the field was nil or held such a literal wrapper, the value read is not the
  zero value, and the field now holds the literal wrapper of the value read.
\<close>

theorem pending_handle_is_kept:
  assumes "i < length fs" and "fs ! i = Field n ts (VIface t d)"
    and "configKey ts = Some (name, False)"
  shows "let fs' = targetFields (fst (ExtractConfig c ns (Some (VPtr (VStruct fs)))))
         in length fs' = length fs
          \<and> ((\<exists>d0. d = Some d0 \<and> \<not> literalOf t d0) \<longrightarrow> fs' ! i = fs ! i)
          \<and> (fs' ! i \<noteq> fs ! i \<longrightarrow>
                (d = None \<or> (\<exists>d0. d = Some d0 \<and> literalOf t d0))
              \<and> \<not> zeroLiteral (plainRead (config_New c ns) t name)
              \<and> fs' ! i = Field n ts (VIface t (Some (plainRead (config_New c ns) t name))))"
proof -
  let ?cfg = "config_New c ns"
  let ?fs' = "fst (extractFields ?cfg fs)"
  let ?v = "fst (extractValue ?cfg name (tagLookup ts ''required'') False (VIface t d))"
  have st: "stepped ?cfg (fs ! i) (?fs' ! i)" using extractFields_nth [OF assms(1)] .
  then have alt: "?fs' ! i = fs ! i \<or> ?fs' ! i = Field n ts ?v"
    using assms(2,3) by (auto simp: stepped_def)
  have keep: "?fs' ! i = fs ! i" if "d = Some d0" and "\<not> literalOf t d0" for d0
    using alt that assms(2) handle_kept [of t d0 ?cfg name] by auto
  have change: "(d = None \<or> (\<exists>d0. d = Some d0 \<and> literalOf t d0))
              \<and> \<not> zeroLiteral (plainRead ?cfg t name)
              \<and> ?fs' ! i = Field n ts (VIface t (Some (plainRead ?cfg t name)))"
    if neq: "?fs' ! i \<noteq> fs ! i"
  proof -
    from alt neq have eq: "?fs' ! i = Field n ts ?v" by simp
    with neq assms(2) have "?v \<noteq> VIface t d" by auto
    from literal_assigned_only [OF this] eq show ?thesis by simp
  qed
  show ?thesis
    unfolding Let_def ExtractConfig_fields
    using extractFields_length [of ?cfg fs] keep change by blast
qed

theorem pending_handle_witness:
  "0 < length (providerFields (Some (DOutput CString 7)))
   \<and> configKey [(''required'', []), (''json'', ''host'')] = Some (''host'', False)
   \<and> \<not> literalOf StringInput (DOutput CString 7)
   \<and> targetFields (fst (ExtractConfig pgContext ''pg''
         (Some (VPtr (VStruct (providerFields (Some (DOutput CString 7))))))))  ! 0
       = providerFields (Some (DOutput CString 7)) ! 0
   \<and> targetFields (fst (ExtractConfig pgContext ''pg'' (Some (VPtr (VStruct (providerFields None)))))) ! 0
       \<noteq> providerFields None ! 0
   \<and> targetFields (fst (ExtractConfig pgContext ''pg'' (Some (VPtr (VStruct (providerFields None)))))) ! 0
       = Field ''Host'' [(''required'', []), (''json'', ''host'')]
           (VIface StringInput (Some (DString ''db.internal'')))"
proof -
  have len: "0 < length (providerFields (Some (DOutput CString 7)))"
    and len': "0 < length (providerFields None)"
    by (simp_all add: providerFields_def)
  have key: "configKey [(''required'', []), (''json'', ''host'')] = Some (''host'', False)"
    by (simp add: configKey_def tagGet_def)
  have f: "providerFields (Some (DOutput CString 7)) ! 0
      = Field ''Host'' [(''required'', []), (''json'', ''host'')] (VIface StringInput (Some (DOutput CString 7)))"
    and f': "providerFields None ! 0
      = Field ''Host'' [(''required'', []), (''json'', ''host'')] (VIface StringInput None)"
    by (simp_all add: providerFields_def)
  have changed: "targetFields (fst (ExtractConfig pgContext ''pg''
        (Some (VPtr (VStruct (providerFields None)))))) ! 0 \<noteq> providerFields None ! 0"
    by code_simp
  have read: "plainRead (config_New pgContext ''pg'') StringInput ''host'' = DString ''db.internal''"
    by code_simp
  show ?thesis
    using pending_handle_is_kept [OF len f key, of pgContext "''pg''"]
      pending_handle_is_kept [OF len' f' key, of pgContext "''pg''"]
      changed read key
    by (simp add: Let_def providerFields_def)
qed

section \<open>Binding scalars twice\<close>

text \<open>One turn of the loop on a scalar field, run again on the field it left, reads the
  same key and ends the same way: a value that was written is not zero, so its key is
  there and a required lookup of it cannot fail.\<close>

lemma extractValue_again_bool:
  "extractValue cfg name req sec (VBool b) = (v', r, e) \<Longrightarrow>
   extractValue cfg name req sec v' = (v', r, e)"
  by (auto simp: accessor_defs split: option.splits if_splits sum.splits)

lemma extractValue_again_int:
  "extractValue cfg name req sec (VInt k n) = (v', r, e) \<Longrightarrow>
   extractValue cfg name req sec v' = (v', r, e)"
  by (auto simp: accessor_defs split: option.splits if_splits sum.splits)

lemma extractValue_again_float:
  "extractValue cfg name req sec (VFloat k x) = (v', r, e) \<Longrightarrow>
   extractValue cfg name req sec v' = (v', r, e)"
  by (auto simp: accessor_defs SetFloat_def split: option.splits if_splits sum.splits)

lemma extractValue_again_string:
  "extractValue cfg name req sec (VString s) = (v', r, e) \<Longrightarrow>
   extractValue cfg name req sec v' = (v', r, e)"
  by (auto simp: accessor_defs split: option.splits if_splits sum.splits)

lemma extractValue_again:
  assumes sc: "scalar v" and h: "extractValue cfg name req sec v = (v', r, e)"
  shows "extractValue cfg name req sec v' = (v', r, e)"
proof (cases v)
  case (VBool b)
  then show ?thesis using h extractValue_again_bool by blast
next
  case (VInt k n)
  then show ?thesis using h extractValue_again_int by blast
next
  case (VFloat k x)
  then show ?thesis using h extractValue_again_float by blast
next
  case (VString s)
  then show ?thesis using h extractValue_again_string by blast
qed (use sc in simp_all)

lemma extractFields_again:
  "list_all scalarField fs \<Longrightarrow> extractFields cfg fs = (fs', r, e) \<Longrightarrow>
   extractFields cfg fs' = (fs', r, e)"
proof (induction fs arbitrary: fs' r e)
  case Nil
  then show ?case by simp
next
  case (Cons f fs)
  obtain n ts fv where f: "f = Field n ts fv" by (cases f)
  have tl: "list_all scalarField fs" using Cons.prems(1) by simp
  show ?case
  proof (cases "configKey ts")
    case None
    obtain gs r1 e1 where rest: "extractFields cfg fs = (gs, r1, e1)"
      by (cases "extractFields cfg fs")
    have "extractFields cfg gs = (gs, r1, e1)" using Cons.IH [OF tl rest] .
    then show ?thesis using Cons.prems(2) None rest f by auto
  next
    case (Some p)
    obtain name sec where p: "p = (name, sec)" by (cases p)
    have sc: "scalar fv" using Cons.prems(1) Some f by (simp add: scalarField_def)
    obtain v r0 e0 where
      step: "extractValue cfg name (tagLookup ts ''required'') sec fv = (v, r0, e0)"
      by (cases "extractValue cfg name (tagLookup ts ''required'') sec fv")
    have again: "extractValue cfg name (tagLookup ts ''required'') sec v = (v, r0, e0)"
      using extractValue_again [OF sc step] .
    show ?thesis
    proof (cases e0)
      case (Some err)
      then show ?thesis
        using Cons.prems(2) \<open>configKey ts = Some p\<close> p f step again by auto
    next
      case None
      obtain gs r1 e1 where rest: "extractFields cfg fs = (gs, r1, e1)"
        by (cases "extractFields cfg fs")
      have "extractFields cfg gs = (gs, r1, e1)" using Cons.IH [OF tl rest] .
      then show ?thesis
        using Cons.prems(2) \<open>configKey ts = Some p\<close> p f step again None rest by auto
    qed
  qed
qed

text \<open>
  C5. Idempotence of scalar re-bind. For a target whose tagged fields are all of scalar
  kind, running \<^verbatim>\<open>ExtractConfig\<close> over the same namespace on the target that a first
  run left gives the same target again, and with it the same keys read and the same
  outcome (nil, or the error that ended the first run).
\<close>

theorem scalar_rebind_idempotent:
  assumes "list_all scalarField fs"
  shows "ExtractConfig c ns (fst (ExtractConfig c ns (Some (VPtr (VStruct fs)))))
       = ExtractConfig c ns (Some (VPtr (VStruct fs)))"
proof -
  obtain gs r e where run: "extractFields (config_New c ns) fs = (gs, r, e)"
    by (cases "extractFields (config_New c ns) fs")
  have "extractFields (config_New c ns) gs = (gs, r, e)"
    using extractFields_again [OF assms run] .
  then show ?thesis using run by (simp add: ExtractConfig_def)
qed

theorem scalar_rebind_witness:
  "list_all scalarField [Field ''Database'' [(''json'', ''database''), (''required'', [])] (VString []),
                         Field ''Port'' [(''json'', ''port'')] (VInt IInt32 0),
                         Field ''ExportAsSecret'' [(''json'', ''exportAsSecret'')] (VBool True)]
   \<and> ExtractConfig pgContext ''pg''
        (Some (VPtr (VStruct [Field ''Database'' [(''json'', ''database''), (''required'', [])] (VString []),
                              Field ''Port'' [(''json'', ''port'')] (VInt IInt32 0),
                              Field ''ExportAsSecret'' [(''json'', ''exportAsSecret'')] (VBool True)])))
      = (Some (VPtr (VStruct [Field ''Database'' [(''json'', ''database''), (''required'', [])] (VString ''app''),
                              Field ''Port'' [(''json'', ''port'')] (VInt IInt32 5432),
                              Field ''ExportAsSecret'' [(''json'', ''exportAsSecret'')] (VBool True)])),
         [''pg:database'', ''pg:port'', ''pg:exportAsSecret''], None)
   \<and> ExtractConfig pgContext ''pg''
        (Some (VPtr (VStruct [Field ''Database'' [(''json'', ''database''), (''required'', [])] (VString ''app''),
                              Field ''Port'' [(''json'', ''port'')] (VInt IInt32 5432),
                              Field ''ExportAsSecret'' [(''json'', ''exportAsSecret'')] (VBool True)])))
      = (Some (VPtr (VStruct [Field ''Database'' [(''json'', ''database''), (''required'', [])] (VString ''app''),
                              Field ''Port'' [(''json'', ''port'')] (VInt IInt32 5432),
                              Field ''ExportAsSecret'' [(''json'', ''exportAsSecret'')] (VBool True)])),
         [''pg:database'', ''pg:port'', ''pg:exportAsSecret''], None)"
proof -
  let ?fs = "[Field ''Database'' [(''json'', ''database''), (''required'', [])] (VString []),
              Field ''Port'' [(''json'', ''port'')] (VInt IInt32 0),
              Field ''ExportAsSecret'' [(''json'', ''exportAsSecret'')] (VBool True)]"
  have h: "list_all scalarField ?fs" by code_simp
  have first: "ExtractConfig pgContext ''pg'' (Some (VPtr (VStruct ?fs)))
      = (Some (VPtr (VStruct [Field ''Database'' [(''json'', ''database''), (''required'', [])] (VString ''app''),
                              Field ''Port'' [(''json'', ''port'')] (VInt IInt32 5432),
                              Field ''ExportAsSecret'' [(''json'', ''exportAsSecret'')] (VBool True)])),
         [''pg:database'', ''pg:port'', ''pg:exportAsSecret''], None)"
    by code_simp
  show ?thesis
    using h first scalar_rebind_idempotent [OF h, of pgContext "''pg''"] by simp
qed

section \<open>Assigning a decoded JSON value to a field\<close>

lemma float64ToInt_truncates:
  assumes a: "- (2 ^ 63) \<le> v" and b: "v < 2 ^ 63"
  shows "float64ToInt v = (if 0 \<le> v then \<lfloor>v\<rfloor> else \<lceil>v\<rceil>)"
proof -
  have f1: "\<lfloor>v\<rfloor> < 2 ^ 63" using b by (simp add: floor_less_iff)
  have f2: "- (2 ^ 63) \<le> \<lfloor>v\<rfloor>" using a by (simp add: le_floor_iff)
  have c1: "- (2 ^ 63) \<le> \<lceil>v\<rceil>" using a by (simp add: le_ceiling_iff)
  have c2: "\<not> 0 \<le> v \<Longrightarrow> \<lceil>v\<rceil> < 2 ^ 63"
    by (simp add: ceiling_less_iff)
  show ?thesis
    using f1 f2 c1 c2 by (simp add: float64ToInt_def Let_def)
qed

lemma setFieldValue_mismatch:
  "jsonKind val = Some k \<Longrightarrow> kind_of fv \<noteq> k \<Longrightarrow> \<not> (kind_of fv = KInt \<and> k = KFloat64) \<Longrightarrow>
   setFieldValue True fv val name
     = (fv, Some (Errorf ''field '%s' is not settable to %v (%v)''
                    [AStr name, AJson val, ATypeOf val] None))"
  by (cases val) (auto simp: setFieldValue_def notSettable_def)

text \<open>A JSON null under the key of a scalar field is neither assigned nor reported: asking
  for its kind panics, and so does the deferred function on a field that is neither an
  interface nor a pointer.\<close>

lemma setFieldValue_null_panics:
  "elemKind fv = None \<Longrightarrow> \<exists>msg. setFieldValue True fv JNull name = (fv, Some (Panic msg))"
  by (simp add: setFieldValue_def recovered_def)

text \<open>
  C9, as the code has it. The coercion is for a field of kind int alone: a float64 JSON
  number assigned to it succeeds and stores the number with its fraction dropped
  (towards zero, for a number within the range of a 64-bit int). For every other
  mismatch between the kind of the field and the kind of a JSON value that is not null
  (a sized or unsigned integer field and a number among them), \<^verbatim>\<open>setFieldValue\<close>
  assigns nothing and returns an error that names the field.
\<close>

theorem int_field_takes_truncated_float:
  "setFieldValue True (VInt IInt n) (JNumber v) name = (VInt IInt (float64ToInt v), None)
   \<and> (map_of dict name = Some (JNumber v) \<longrightarrow>
        bindField dict name (VInt IInt n) = (VInt IInt (float64ToInt v), Continue))
   \<and> (- (2 ^ 63) \<le> v \<and> v < 2 ^ 63 \<longrightarrow> float64ToInt v = (if 0 \<le> v then \<lfloor>v\<rfloor> else \<lceil>v\<rceil>))
   \<and> (jsonKind val = Some k \<and> kind_of fv \<noteq> k \<and> \<not> (kind_of fv = KInt \<and> k = KFloat64) \<longrightarrow>
        setFieldValue True fv val name
          = (fv, Some (Errorf ''field '%s' is not settable to %v (%v)''
                         [AStr name, AJson val, ATypeOf val] None)))"
  using float64ToInt_truncates [of v] setFieldValue_mismatch [of val k fv name]
  by (simp add: setFieldValue_def afterSet_def)

theorem int_field_witness:
  "- (2 ^ 63) \<le> (54329 / 10 :: real) \<and> (54329 / 10 :: real) < 2 ^ 63
   \<and> map_of [(''port'', JNumber (54329 / 10))] ''port'' = Some (JNumber (54329 / 10))
   \<and> bindField [(''port'', JNumber (54329 / 10))] ''port'' (VInt IInt 0) = (VInt IInt 5432, Continue)
   \<and> jsonKind (JString ''5432'') = Some KString
   \<and> kind_of (VInt IInt 0) \<noteq> KString
   \<and> \<not> (kind_of (VInt IInt 0) = KInt \<and> KString = KFloat64)
   \<and> setFieldValue True (VInt IInt 0) (JNumber (54329 / 10)) ''port'' = (VInt IInt 5432, None)
   \<and> setFieldValue True (VInt IInt 0) (JString ''5432'') ''port''
       = (VInt IInt 0, Some (Errorf ''field '%s' is not settable to %v (%v)''
                               [AStr ''port'', AJson (JString ''5432''), ATypeOf (JString ''5432'')] None))"
proof -
  have r: "- (2 ^ 63) \<le> (54329 / 10 :: real) \<and> (54329 / 10 :: real) < 2 ^ 63" by simp
  have t: "(if 0 \<le> (54329 / 10 :: real) then \<lfloor>54329 / 10 :: real\<rfloor> else \<lceil>54329 / 10 :: real\<rceil>) = 5432"
    by simp
  have m: "jsonKind (JString ''5432'') = Some KString \<and> kind_of (VInt IInt 0) \<noteq> KString
      \<and> \<not> (kind_of (VInt IInt 0) = KInt \<and> KString = KFloat64)"
    by simp
  show ?thesis
    using int_field_takes_truncated_float
      [of 0 "54329 / 10" "''port''" "[(''port'', JNumber (54329 / 10))]"
          "JString ''5432''" KString "VInt IInt 0"] r t m
    by (simp add: afterSet_def)
qed

text \<open>The claim as it was stated fails on an int64 field: the number is not assigned.\<close>

theorem sized_int_field_counterexample:
  "setFieldValue True (VInt IInt64 0) (JNumber 3) ''port''
     = (VInt IInt64 0, Some (Errorf ''field '%s' is not settable to %v (%v)''
                               [AStr ''port'', AJson (JNumber 3), ATypeOf (JNumber 3)] None))"
  by (simp add: setFieldValue_def notSettable_def)

section \<open>Deferred values in the serializer\<close>

lemma foldl_processField_other:
  "\<forall>f\<in>set fs. marshalKey f \<noteq> k \<Longrightarrow> foldl processField m fs k = m k"
  by (induction fs arbitrary: m) (auto simp: processField_def split: boxed.splits dyn.splits)

lemma processField_output:
  "fvalue f = VIface t (Some (DOutput c h)) \<Longrightarrow>
   processField m f = m(marshalKey f \<mapsto> BVal (VString (placeholder c)))"
  by (simp add: processField_def)

lemma processFields_placeholder:
  assumes i: "i < length fs" and out: "fvalue (fs ! i) = VIface t (Some (DOutput c h))"
    and later: "\<forall>j. i < j \<and> j < length fs \<longrightarrow> marshalKey (fs ! j) \<noteq> marshalKey (fs ! i)"
  shows "processFields fs (marshalKey (fs ! i)) = Some (BVal (VString (placeholder c)))"
proof -
  have split: "fs = take i fs @ fs ! i # drop (Suc i) fs" using i by (rule id_take_nth_drop)
  have rest: "\<forall>f\<in>set (drop (Suc i) fs). marshalKey f \<noteq> marshalKey (fs ! i)"
  proof
    fix f assume "f \<in> set (drop (Suc i) fs)"
    then obtain k where k: "k < length (drop (Suc i) fs)" and f: "f = drop (Suc i) fs ! k"
      by (auto simp: in_set_conv_nth)
    then have "f = fs ! (Suc i + k)" and "Suc i + k < length fs" by auto
    then show "marshalKey f \<noteq> marshalKey (fs ! i)" using later by auto
  qed
  have "processFields fs
      = foldl processField (processField (foldl processField Map.empty (take i fs)) (fs ! i))
          (drop (Suc i) fs)"
    unfolding processFields_def by (subst split) simp
  then show ?thesis
    using foldl_processField_other [OF rest] processField_output [OF out] by simp
qed

lemma foldl_update_same:
  "i < length fs \<Longrightarrow> (\<And>m. step m f' = step m (fs ! i)) \<Longrightarrow>
   foldl step m (fs[i := f']) = foldl step m fs"
proof (induction fs arbitrary: i m)
  case Nil
  then show ?case by simp
next
  case (Cons a fs)
  then show ?case by (cases i) auto
qed

lemma processFields_handle_free:
  assumes i: "i < length fs" and out: "fs ! i = Field n ts (VIface t (Some (DOutput c h)))"
  shows "processFields (fs[i := Field n ts (VIface t (Some (DOutput c h')))]) = processFields fs"
  unfolding processFields_def
  by (rule foldl_update_same [OF i]) (simp add: out processField_def marshalKey_def)

text \<open>
  C3, as the code has it. Let field \<open>i\<close> of a struct hold an Output of capability \<open>c\<close>.
  The serializer marshals the map \<open>processFields\<close>, for a struct passed by pointer or by
  value. If no later field of the struct has the same key (the json tag, or the field
  name without one), the map has the placeholder of \<open>c\<close> under the key of field \<open>i\<close>.
  Whatever the keys, the output is the same for any other handle in that field: it holds
  nothing of the deferred value.
\<close>

theorem output_serialized_as_placeholder:
  assumes "i < length fs" and "fs ! i = Field n ts (VIface t (Some (DOutput c h)))"
  shows "MarshalJSONConfig marshal (Some (VPtr (VStruct fs))) = marshal (processFields fs)
       \<and> MarshalJSONConfig marshal (Some (VStruct fs)) = marshal (processFields fs)
       \<and> ((\<forall>j. i < j \<and> j < length fs \<longrightarrow> marshalKey (fs ! j) \<noteq> marshalKey (fs ! i)) \<longrightarrow>
            processFields fs (if tagGet ts ''json'' = [] then n else tagGet ts ''json'')
              = Some (BVal (VString (placeholder c))))
       \<and> MarshalJSONConfig marshal
            (Some (VPtr (VStruct (fs[i := Field n ts (VIface t (Some (DOutput c h')))]))))
           = MarshalJSONConfig marshal (Some (VPtr (VStruct fs)))
       \<and> MarshalJSONConfig marshal
            (Some (VStruct (fs[i := Field n ts (VIface t (Some (DOutput c h')))])))
           = MarshalJSONConfig marshal (Some (VStruct fs))"
proof -
  have key: "marshalKey (fs ! i) = (if tagGet ts ''json'' = [] then n else tagGet ts ''json'')"
    using assms(2) by (simp add: marshalKey_def)
  have out: "fvalue (fs ! i) = VIface t (Some (DOutput c h))" using assms(2) by simp
  have ph: "processFields fs (if tagGet ts ''json'' = [] then n else tagGet ts ''json'')
              = Some (BVal (VString (placeholder c)))"
    if "\<forall>j. i < j \<and> j < length fs \<longrightarrow> marshalKey (fs ! j) \<noteq> marshalKey (fs ! i)"
    using processFields_placeholder [OF assms(1) out that] key by simp
  have same: "processFields (fs[i := Field n ts (VIface t (Some (DOutput c h')))]) = processFields fs"
    using processFields_handle_free [OF assms] .
  show ?thesis using ph same by (simp add: MarshalJSONConfig_def)
qed

theorem output_placeholder_witness:
  "1 < length (secretFields 7)
   \<and> secretFields 7 ! 1 = Field ''SuperuserPassword'' [(''secret'', ''superuserPassword'')]
                            (VIface StringInput (Some (DOutput CString 7)))
   \<and> length (secretFields 7) = 3
   \<and> marshalKey (secretFields 7 ! 2) \<noteq> marshalKey (secretFields 7 ! 1)
   \<and> processFields (secretFields 7) ''SuperuserPassword'' = Some (BVal (VString ''[StringOutput]''))
   \<and> MarshalJSONConfig (showKey ''SuperuserPassword'') (Some (VPtr (VStruct (secretFields 7))))
       = Inr ''[StringOutput]''
   \<and> MarshalJSONConfig (showKey ''SuperuserPassword'') (Some (VPtr (VStruct (secretFields 8))))
       = MarshalJSONConfig (showKey ''SuperuserPassword'') (Some (VPtr (VStruct (secretFields 7))))"
proof -
  have len: "1 < length (secretFields 7)" by (simp add: secretFields_def)
  have f: "secretFields 7 ! 1 = Field ''SuperuserPassword'' [(''secret'', ''superuserPassword'')]
                            (VIface StringInput (Some (DOutput CString 7)))"
    by (simp add: secretFields_def)
  have later: "\<forall>j. 1 < j \<and> j < length (secretFields 7) \<longrightarrow>
          marshalKey (secretFields 7 ! j) \<noteq> marshalKey (secretFields 7 ! 1)"
  proof (intro allI impI)
    fix j assume "1 < j \<and> j < length (secretFields 7)"
    then have "j = 2" by (simp add: secretFields_def)
    then show "marshalKey (secretFields 7 ! j) \<noteq> marshalKey (secretFields 7 ! 1)"
      by (simp add: secretFields_def marshalKey_def tagGet_def)
  qed
  have upd: "(secretFields 7)[1 := Field ''SuperuserPassword'' [(''secret'', ''superuserPassword'')]
                            (VIface StringInput (Some (DOutput CString 8)))] = secretFields 8"
    by (simp add: secretFields_def)
  have shown: "showKey ''SuperuserPassword'' (processFields (secretFields 7)) = Inr ''[StringOutput]''"
    by code_simp
  have three: "length (secretFields 7) = 3"
    and keys: "marshalKey (secretFields 7 ! 2) \<noteq> marshalKey (secretFields 7 ! 1)"
    by (simp_all add: secretFields_def marshalKey_def tagGet_def)
  show ?thesis
    using output_serialized_as_placeholder [OF len f, of "showKey ''SuperuserPassword''" 8]
      len f later upd shown three keys
    by (simp add: tagGet_def)
qed

text \<open>The claim as it was stated fails when a later field has the same key: the later
  field's value is what is emitted under it.\<close>

theorem later_key_counterexample:
  "fvalue (collidingFields ! 0) = VIface StringInput (Some (DOutput CString 7))
   \<and> marshalKey (collidingFields ! 0) = ''token''
   \<and> processFields collidingFields ''token'' = Some (BVal (VString ''plain''))
   \<and> MarshalJSONConfig (showKey ''token'') (Some (VStruct collidingFields)) = Inr ''plain''"
  by code_simp

section \<open>Where the code departs from its specification\<close>

text \<open>
  C2. A required bool field takes the hard-failing lookup when it is true, not when it is
  false: the test is \<^verbatim>\<open>isRequired && fv.Bool()\<close>, where the integer, float and string
  cases test for the zero value. With no entry for the key, a field that already holds
  true ends the call with the missing-configuration failure, and a field that holds the
  zero value does not fail.
\<close>

theorem required_bool_fails_when_set:
  "ExtractConfig emptyContext ''pg'' (flagTarget True)
     = (flagTarget True, [''pg:flag''], Some (MissingConfigError ''pg:flag''))
   \<and> ExtractConfig emptyContext ''pg'' (flagTarget False)
     = (flagTarget False, [''pg:flag''], None)"
  by code_simp

text \<open>For the other scalar kinds the required lookup is skipped once the field is set.\<close>

lemma required_skipped_when_set:
  "n \<noteq> 0 \<Longrightarrow> \<not> unsigned k \<Longrightarrow> config (ctx cfg) (fullKey cfg name) = None \<Longrightarrow>
     extractValue cfg name True False (VInt k n) = (VInt k n, [fullKey cfg name], None)"
  "x \<noteq> 0 \<Longrightarrow> config (ctx cfg) (fullKey cfg name) = None \<Longrightarrow>
     extractValue cfg name True False (VFloat fk x) = (VFloat fk x, [fullKey cfg name], None)"
  "s \<noteq> [] \<Longrightarrow> config (ctx cfg) (fullKey cfg name) = None \<Longrightarrow>
     extractValue cfg name True False (VString s) = (VString s, [fullKey cfg name], None)"
  by (simp_all add: accessor_defs)

text \<open>Given any interface that is not nil, \<^verbatim>\<open>loadJsonConfig\<close> gives the text of
  the key or the empty-JSON signal, and nothing else.\<close>

lemma loadJsonConfig_never_required:
  "loadJsonConfig cfg name required (Some v) = Inl ErrJsonEmpty
   \<or> (\<exists>text. loadJsonConfig cfg name required (Some v) = Inr text)"
  by (simp add: loadJsonConfig_def Let_def)

text \<open>
  C4. \<^verbatim>\<open>loadJsonConfig\<close> reports a missing required key only if \<^verbatim>\<open>curr == nil\<close>, and
  every caller passes an interface that holds a map or a non-nil pointer, never the nil
  interface. So the report is never made: with no entry for the required key
  \<open>database\<close> and a zero-valued \<open>Database\<close> field, the call returns nil and leaves the
  field as it was.
\<close>

theorem missing_required_blob_not_reported:
  "IsZero (dbProps [] None)
   \<and> config emptyContext ''pg:database'' = None
   \<and> ExtractConfig emptyContext ''pg'' (pgTarget (dbProps [] None))
       = (pgTarget (dbProps [] None), [''pg:database''], None)"
  by code_simp

text \<open>
  C6. The four scalar cases return the secret-on-non-deferred error; the cases for map,
  struct, pointer, array and slice never look at \<^verbatim>\<open>isSecret\<close>. A struct field whose
  key comes from a secret tag is bound from its JSON like any other, without error.
\<close>

theorem secret_struct_field_accepted:
  \<open>configKey [(''secret'', ''creds'')] = Some (''creds'', True)
   \<and> config pgContext ''pg:creds'' = Some ''{"user":"admin"}''
   \<and> ExtractConfig pgContext ''pg'' (credsTarget [])
       = (credsTarget ''admin'', [''pg:creds''], None)\<close>
  by code_simp

text \<open>
  C7. A JSON value of the wrong shape meets an unchecked type assertion: an object under
  the key of a slice field, an array under the key of a struct field, an array element
  that is not an object. The call does not return an error, it panics, and so does the
  call of \<^verbatim>\<open>ExtractConfig\<close> that reads such JSON from the configuration; the panic
  message names the expected type but not the field.
\<close>

theorem shape_mismatch_panics:
  \<open>unmarshallJSONMap [(''dbRoles'', JObject [(''permission'', JString ''ro'')])]
      (Some (VPtr (dbProps [] None)))
     = (Some (VPtr (dbProps [] (Some []))),
        Some (Panic ''interface conversion: interface {} is not []interface {}''))
   \<and> config pgContext ''pg:db'' = Some ''{"dbRoles":{"permission":"ro"}}''
   \<and> ExtractConfig pgContext ''pg'' (dbTarget (dbProps [] None))
     = (dbTarget (dbProps [] None), [''pg:db''],
        Some (Panic ''interface conversion: interface {} is not []interface {}''))
   \<and> unmarshallJSONMap [(''database'', JArray [])] (pgTarget (dbProps [] None))
     = (pgTarget (dbProps [] None),
        Some (Panic ''interface conversion: interface {} is not map[string]interface {}''))
   \<and> unmarshallJSONArray [JString ''ro''] (Some (VPtr (VSlice dbRoleT None)))
     = (Some (VPtr (VSlice dbRoleT None)),
        Some (Panic ''interface conversion: interface {} is not map[string]interface {}''))\<close>
  by code_simp

end
